theory Spec2Isabelle
  imports Complex_Main
begin

section \<open>Exceptions of the C++ sources as values\<close>

text \<open>
  Every \<^verbatim>\<open>throw\<close> of the sources becomes a value of this type, carrying the message of
  the exception. A failed \<^verbatim>\<open>assert\<close> aborts the program and is a value of its own.
  \<^verbatim>\<open>out_of_range\<close> marks an unchecked index outside its vector or array, where the
  behaviour of the C++ program is undefined: the model stops there with no result.
\<close>

datatype error =
    invalid_argument string
  | runtime_error string
  | logic_error string
  | assertion_failed
  | out_of_range

text \<open>
  In the C++ standard library \<^verbatim>\<open>std::invalid_argument\<close> is derived from
  \<^verbatim>\<open>std::logic_error\<close>, while \<^verbatim>\<open>std::runtime_error\<close> is not.
\<close>

fun is_logic_error :: "error \<Rightarrow> bool" where
  "is_logic_error (invalid_argument m) = True"
| "is_logic_error (logic_error m) = True"
| "is_logic_error (runtime_error m) = False"
| "is_logic_error assertion_failed = False"
| "is_logic_error out_of_range = False"

section \<open>Fiber::SeparableNumericalTestKernelTrialIntegrator\<close>

text \<open>
  Armadillo matrices and cubes: their dimensions and the elements in column-major order.
  Scalars of type \<^verbatim>\<open>ValueType\<close> are real numbers here.
\<close>

record 'a Mat =
  n_rows :: nat
  n_cols :: nat
  mem :: "'a list"

record 'a Cube =
  cube_n_rows :: nat
  cube_n_cols :: nat
  cube_n_slices :: nat
  cube_mem :: "'a list"

text \<open>
  The collaborators of the integrator, with the member functions the integrator calls.
  \<^verbatim>\<open>'bd\<close> stands for \<^verbatim>\<open>BasisData\<close> and \<^verbatim>\<open>'gd\<close> for \<^verbatim>\<open>GeometricalData\<close>; the
  dependency flags passed along in the source are fixed by the expressions and the kernel
  and are left out.
\<close>

record 'bd Basis =
  basis_size :: nat
  basis_evaluate :: "real Mat \<Rightarrow> 'bd"

record ('bd, 'gd) Expression =
  codomainDimension :: nat
  expression_evaluate :: "'bd \<Rightarrow> 'gd \<Rightarrow> nat \<Rightarrow> nat \<Rightarrow> nat \<Rightarrow> real"

record 'gd Kernel =
  kernel_codomainDimension :: nat
  kernel_domainDimension :: nat
  evaluateOnGrid :: "'gd \<Rightarrow> 'gd \<Rightarrow> nat \<Rightarrow> nat \<Rightarrow> nat \<Rightarrow> nat \<Rightarrow> real"

record 'gd RawGridGeometry =
  getData :: "int \<Rightarrow> real Mat \<Rightarrow> 'gd"
  integrationElements :: "'gd \<Rightarrow> nat \<Rightarrow> real"

record OpenClHandler =
  UseOpenCl :: bool

record ('bd, 'gd) Integrator =
  m_localTestQuadPoints :: "real Mat"
  m_localTrialQuadPoints :: "real Mat"
  m_testQuadWeights :: "real list"
  m_trialQuadWeights :: "real list"
  m_rawGeometry :: "'gd RawGridGeometry"
  m_testExpression :: "('bd, 'gd) Expression"
  m_kernel :: "'gd Kernel"
  m_trialExpression :: "('bd, 'gd) Expression"
  m_openClHandler :: OpenClHandler

text \<open>
  The constructor: the members are initialised from the arguments, then the two size
  checks run, the test one first.
\<close>

definition SeparableNumericalTestKernelTrialIntegrator ::
  "real Mat \<Rightarrow> real Mat \<Rightarrow> real list \<Rightarrow> real list \<Rightarrow> 'gd RawGridGeometry \<Rightarrow>
   ('bd, 'gd) Expression \<Rightarrow> 'gd Kernel \<Rightarrow> ('bd, 'gd) Expression \<Rightarrow> OpenClHandler \<Rightarrow>
   error + ('bd, 'gd) Integrator" where
  "SeparableNumericalTestKernelTrialIntegrator localTestQuadPoints localTrialQuadPoints
     testQuadWeights trialQuadWeights rawGeometry testExpression kernel0 trialExpression
     openClHandler =
   (if n_cols localTestQuadPoints \<noteq> length testQuadWeights then
      Inl (invalid_argument (''SeparableNumericalTestKernelTrialIntegrator::'' @
        ''SeparableNumericalTestKernelTrialIntegrator(): '' @
        ''numbers of test points and weight do not match''))
    else if n_cols localTrialQuadPoints \<noteq> length trialQuadWeights then
      Inl (invalid_argument (''SeparableNumericalTestKernelTrialIntegrator::'' @
        ''SeparableNumericalTestKernelTrialIntegrator(): '' @
        ''numbers of trial points and weight do not match''))
    else
      Inr \<lparr> m_localTestQuadPoints = localTestQuadPoints,
            m_localTrialQuadPoints = localTrialQuadPoints,
            m_testQuadWeights = testQuadWeights,
            m_trialQuadWeights = trialQuadWeights,
            m_rawGeometry = rawGeometry,
            m_testExpression = testExpression,
            m_kernel = kernel0,
            m_trialExpression = trialExpression,
            m_openClHandler = openClHandler \<rparr>)"

text \<open>
  One entry of the result of the element-pair overload of \<^verbatim>\<open>integrateCpu\<close>: the
  quadrature sum for a test and a trial degree of freedom, with the loops over the trial
  points, the test points and the components nested as in the source.
\<close>

definition pairEntry ::
  "('bd, 'gd) Integrator \<Rightarrow> bool \<Rightarrow> nat \<Rightarrow> nat \<Rightarrow> nat \<Rightarrow> nat \<Rightarrow>
   'gd \<Rightarrow> 'gd \<Rightarrow> (nat \<Rightarrow> nat \<Rightarrow> nat \<Rightarrow> real) \<Rightarrow> (nat \<Rightarrow> nat \<Rightarrow> nat \<Rightarrow> real) \<Rightarrow>
   (nat \<Rightarrow> nat \<Rightarrow> nat \<Rightarrow> nat \<Rightarrow> real) \<Rightarrow> nat \<Rightarrow> nat \<Rightarrow> real" where
  "pairEntry I scalarKernel testPointCount trialPointCount testComponentCount
     trialComponentCount testGeomData trialGeomData testValues trialValues kernelValues
     testDof trialDof =
   (if scalarKernel then
      sum_list (concat (map (\<lambda>trialPoint. concat (map (\<lambda>testPoint. map (\<lambda>dim.
          m_testQuadWeights I ! testPoint *
          integrationElements (m_rawGeometry I) testGeomData testPoint *
          testValues dim testDof testPoint *
          kernelValues 0 0 testPoint trialPoint *
          trialValues dim trialDof trialPoint *
          integrationElements (m_rawGeometry I) trialGeomData trialPoint *
          m_trialQuadWeights I ! trialPoint)
        [0..<testComponentCount]) [0..<testPointCount])) [0..<trialPointCount]))
    else
      sum_list (concat (map (\<lambda>trialPoint. concat (map (\<lambda>testPoint.
        concat (map (\<lambda>trialDim. map (\<lambda>testDim.
          m_testQuadWeights I ! testPoint *
          integrationElements (m_rawGeometry I) testGeomData testPoint *
          testValues testDim testDof testPoint *
          kernelValues testDim trialDim testPoint trialPoint *
          trialValues trialDim trialDof trialPoint *
          integrationElements (m_rawGeometry I) trialGeomData trialPoint *
          m_trialQuadWeights I ! trialPoint)
        [0..<testComponentCount]) [0..<trialComponentCount]))
        [0..<testPointCount])) [0..<trialPointCount])))"

text \<open>
  The slice of the result for one pair of elements: the loop over \<^verbatim>\<open>trialDof\<close> is the
  outer one and the loop over \<^verbatim>\<open>testDof\<close> the inner one, which is the column-major
  order of the slice.
\<close>

definition pairSlice ::
  "('bd, 'gd) Integrator \<Rightarrow> bool \<Rightarrow> nat \<Rightarrow> nat \<Rightarrow> nat \<Rightarrow> nat \<Rightarrow> nat \<Rightarrow> nat \<Rightarrow>
   'bd \<Rightarrow> 'bd \<Rightarrow> int \<times> int \<Rightarrow> real list" where
  "pairSlice I scalarKernel testPointCount trialPointCount testComponentCount
     trialComponentCount testDofCount trialDofCount testBasisData trialBasisData pair =
   (let testGeomData = getData (m_rawGeometry I) (fst pair) (m_localTestQuadPoints I);
        trialGeomData = getData (m_rawGeometry I) (snd pair) (m_localTrialQuadPoints I);
        testValues = expression_evaluate (m_testExpression I) testBasisData testGeomData;
        trialValues = expression_evaluate (m_trialExpression I) trialBasisData trialGeomData;
        kernelValues = evaluateOnGrid (m_kernel I) testGeomData trialGeomData
    in concat (map (\<lambda>trialDof. map (\<lambda>testDof.
         pairEntry I scalarKernel testPointCount trialPointCount testComponentCount
           trialComponentCount testGeomData trialGeomData testValues trialValues
           kernelValues testDof trialDof)
       [0..<testDofCount]) [0..<trialDofCount]))"

text \<open>
  \<^verbatim>\<open>integrateCpu\<close> for a list of element index pairs. The cube \<^verbatim>\<open>result\<close> is an
  in-out argument: the function returns its new value. The early return comes first; then
  the assertions on the kernel dimensions; then \<^verbatim>\<open>result\<close> is resized and every entry
  is assigned.
\<close>

definition integrateCpu ::
  "('bd, 'gd) Integrator \<Rightarrow> (int \<times> int) list \<Rightarrow> 'bd Basis \<Rightarrow> 'bd Basis \<Rightarrow> real Cube \<Rightarrow>
   error + real Cube" where
  "integrateCpu I elementIndexPairs testBasis trialBasis result =
   (let testPointCount = n_cols (m_localTestQuadPoints I);
        trialPointCount = n_cols (m_localTrialQuadPoints I);
        geometryPairCount = length elementIndexPairs
    in if testPointCount = 0 \<or> trialPointCount = 0 \<or> geometryPairCount = 0 then
         Inr result
       else
         let testComponentCount = codomainDimension (m_testExpression I);
             trialComponentCount = codomainDimension (m_trialExpression I);
             testDofCount = basis_size testBasis;
             trialDofCount = basis_size trialBasis;
             kernelRowCount = kernel_codomainDimension (m_kernel I);
             kernelColCount = kernel_domainDimension (m_kernel I);
             scalarKernel = (kernelRowCount = 1 \<and> kernelColCount = 1)
         in if (if scalarKernel then testComponentCount \<noteq> trialComponentCount
                else testComponentCount \<noteq> kernelRowCount \<or>
                     kernelColCount \<noteq> trialComponentCount) then
              Inl assertion_failed
            else
              let testBasisData = basis_evaluate testBasis (m_localTestQuadPoints I);
                  trialBasisData = basis_evaluate trialBasis (m_localTrialQuadPoints I)
              in Inr \<lparr> cube_n_rows = testDofCount, cube_n_cols = trialDofCount,
                       cube_n_slices = geometryPairCount,
                       cube_mem = concat (map
                         (pairSlice I scalarKernel testPointCount trialPointCount
                            testComponentCount trialComponentCount testDofCount
                            trialDofCount testBasisData trialBasisData)
                         elementIndexPairs) \<rparr>)"

text \<open>
  \<^verbatim>\<open>integrateCl\<close> in a build without OpenCL support (the configuration of the OpenCL
  kernels is outside this development).
\<close>

definition integrateCl ::
  "('bd, 'gd) Integrator \<Rightarrow> (int \<times> int) list \<Rightarrow> 'bd Basis \<Rightarrow> 'bd Basis \<Rightarrow> real Cube \<Rightarrow>
   error + real Cube" where
  "integrateCl I elementIndexPairs testBasis trialBasis result =
     Inl (runtime_error ''Trying to call OpenCL method without OpenCL support'')"

definition integrate ::
  "('bd, 'gd) Integrator \<Rightarrow> (int \<times> int) list \<Rightarrow> 'bd Basis \<Rightarrow> 'bd Basis \<Rightarrow> real Cube \<Rightarrow>
   error + real Cube" where
  "integrate I elementIndexPairs testBasis trialBasis result =
   (if UseOpenCl (m_openClHandler I) then
      integrateCl I elementIndexPairs testBasis trialBasis result
    else
      integrateCpu I elementIndexPairs testBasis trialBasis result)"

text \<open>Concrete collaborators, used to run the integrator on explicit inputs.\<close>

definition constantGeometry :: "unit RawGridGeometry" where
  "constantGeometry = \<lparr> getData = (\<lambda>e pts. ()), integrationElements = (\<lambda>g p. 1) \<rparr>"

definition scalarExpression :: "(unit, unit) Expression" where
  "scalarExpression =
     \<lparr> codomainDimension = 1, expression_evaluate = (\<lambda>b g d f p. 1) \<rparr>"

definition scalarKernel0 :: "unit Kernel" where
  "scalarKernel0 =
     \<lparr> kernel_codomainDimension = 1, kernel_domainDimension = 1,
       evaluateOnGrid = (\<lambda>g h r c p q. 1) \<rparr>"

definition linearBasis :: "unit Basis" where
  "linearBasis = \<lparr> basis_size = 3, basis_evaluate = (\<lambda>pts. ()) \<rparr>"

definition noPoints :: "real Mat" where
  "noPoints = \<lparr> n_rows = 2, n_cols = 0, mem = [] \<rparr>"

definition onePoint :: "real Mat" where
  "onePoint = \<lparr> n_rows = 2, n_cols = 1, mem = [1/3, 1/3] \<rparr>"

definition emptyQuadratureIntegrator :: "(unit, unit) Integrator" where
  "emptyQuadratureIntegrator =
     \<lparr> m_localTestQuadPoints = noPoints, m_localTrialQuadPoints = onePoint,
       m_testQuadWeights = [], m_trialQuadWeights = [1/2],
       m_rawGeometry = constantGeometry, m_testExpression = scalarExpression,
       m_kernel = scalarKernel0, m_trialExpression = scalarExpression,
       m_openClHandler = \<lparr> UseOpenCl = False \<rparr> \<rparr>"

definition staleCube :: "real Cube" where
  "staleCube = \<lparr> cube_n_rows = 1, cube_n_cols = 1, cube_n_slices = 1, cube_mem = [5] \<rparr>"

section \<open>FmmGlobalAssembler::assembleDetachedWeakForm\<close>

text \<open>
  The spaces as the assembler reads them: their numbers of degrees of freedom and the
  bounding box of their grid. The effects of the assembler are recorded as a trace of
  events, in the order of the statements: writes to the standard output, the construction
  of the octree (with the number of levels and the bounding box), the assignment of the
  points, and the two parallel loops that cache the near and the far field.
\<close>

record Space =
  globalDofCount :: nat
  flatLocalDofCount :: nat
  boundingBoxLower :: "real list"
  boundingBoxUpper :: "real list"

datatype event =
    StdOut
  | ConstructOctree nat "real list" "real list"
  | AssignPoints bool
  | NearFieldCaching
  | FarFieldCaching

datatype symmetry_flag = SYMMETRIC | HERMITIAN

record DiscreteFmmBoundaryOperator =
  rowCount :: nat
  columnCount :: nat
  symmetry :: "symmetry_flag list"

text \<open>
  \<^verbatim>\<open>levels\<close> is \<^verbatim>\<open>fmmOptions.levels\<close> and \<^verbatim>\<open>is_complex\<close> is
  \<^verbatim>\<open>boost::is_complex<ResultType>()\<close>. \<^verbatim>\<open>indexWithGlobalDofs\<close> is the constant
  \<^verbatim>\<open>true\<close> of the source.
\<close>

definition assembleDetachedWeakForm ::
  "Space \<Rightarrow> Space \<Rightarrow> nat \<Rightarrow> bool \<Rightarrow> bool \<Rightarrow> event list \<times> (error + DiscreteFmmBoundaryOperator)" where
  "assembleDetachedWeakForm testSpace trialSpace levels is_complex hermitian =
   (let indexWithGlobalDofs = True;
        testDofCount = (if indexWithGlobalDofs then globalDofCount testSpace
                        else flatLocalDofCount testSpace);
        trialDofCount = (if indexWithGlobalDofs then globalDofCount trialSpace
                         else flatLocalDofCount trialSpace);
        trace0 = [StdOut, StdOut]
    in if hermitian \<and> testDofCount \<noteq> trialDofCount then
         (trace0, Inl (invalid_argument (''FmmGlobalAssembler::assembleDetachedWeakForm(): '' @
            ''you cannot generate a Hermitian weak form '' @
            ''using test and trial spaces with different '' @
            ''numbers of DOFs'')))
       else
         let lowerBound = map2 min (boundingBoxLower testSpace) (boundingBoxLower trialSpace);
             upperBound = map2 max (boundingBoxUpper testSpace) (boundingBoxUpper trialSpace);
             nLevels = levels;
             symmetry0 = (if hermitian then
                            (if is_complex then [HERMITIAN, SYMMETRIC] else [HERMITIAN])
                          else [])
         in (trace0 @ [StdOut, StdOut, ConstructOctree nLevels lowerBound upperBound,
                       AssignPoints hermitian, StdOut, NearFieldCaching, StdOut,
                       FarFieldCaching],
             Inr \<lparr> rowCount = testDofCount, columnCount = trialDofCount,
                   symmetry = symmetry0 \<rparr>))"

fun startsOctreeWork :: "event \<Rightarrow> bool" where
  "startsOctreeWork StdOut = False"
| "startsOctreeWork (ConstructOctree n lo up) = True"
| "startsOctreeWork (AssignPoints h) = True"
| "startsOctreeWork NearFieldCaching = True"
| "startsOctreeWork FarFieldCaching = True"

section \<open>GridFunction::exportToVtk\<close>

text \<open>
  What \<^verbatim>\<open>evaluateAtSpecialPoints\<close> reads of the grid function: the dimension of the
  grid and, for each element of the leaf view, the address of its basis and its number of
  corners. A value of the enumeration \<^verbatim>\<open>VtkWriter::DataType\<close> other than the two named
  ones is \<^verbatim>\<open>OTHER_DATA\<close>; a value of \<^verbatim>\<open>VtkWriter::OutputType\<close> is its integer.
\<close>

datatype DataType = CELL_DATA | VERTEX_DATA | OTHER_DATA

type_synonym OutputType = int

record GridFunction =
  gridDim :: int
  basesAndCornerCounts :: "(nat \<times> int) list"
  m_coefficients :: "real list"

text \<open>
  The \<^verbatim>\<open>std::set\<close> of pairs of a basis address and a corner count: insertion keeps
  the elements sorted by \<^verbatim>\<open>operator<\<close> of \<^verbatim>\<open>std::pair\<close> and drops duplicates.
\<close>

definition pair_less :: "nat \<times> int \<Rightarrow> nat \<times> int \<Rightarrow> bool" where
  "pair_less x y = (fst x < fst y \<or> (\<not> fst y < fst x \<and> snd x < snd y))"

fun set_insert :: "nat \<times> int \<Rightarrow> (nat \<times> int) list \<Rightarrow> (nat \<times> int) list" where
  "set_insert x [] = [x]"
| "set_insert x (y # ys) =
     (if pair_less x y then x # y # ys
      else if pair_less y x then y # set_insert x ys
      else y # ys)"

definition uniqueBasesAndCornerCounts :: "(nat \<times> int) list \<Rightarrow> (nat \<times> int) list" where
  "uniqueBasesAndCornerCounts es = fold set_insert es []"

text \<open>
  The element types for which the local coordinates are set; the test is the same for
  cell data and for vertex data.
\<close>

definition supportedElementType :: "int \<Rightarrow> int \<Rightarrow> bool" where
  "supportedElementType d activeCornerCount =
     ((d = 1 \<and> activeCornerCount = 2) \<or> (d = 2 \<and> activeCornerCount = 3)
      \<or> (d = 2 \<and> activeCornerCount = 4))"

text \<open>
  The loop over the elements for one active basis: elements with another basis are
  skipped, and the first element with the active basis ends in the \<^verbatim>\<open>throw\<close>.
\<close>

fun elementLoop :: "nat \<Rightarrow> (nat \<times> int) list \<Rightarrow> error + unit" where
  "elementLoop activeBasis [] = Inr ()"
| "elementLoop activeBasis (e # es) =
     (if fst e \<noteq> activeBasis then elementLoop activeBasis es
      else Inl (logic_error ''NOT WORKING!!!''))"

fun uniqueLoop :: "int \<Rightarrow> (nat \<times> int) list \<Rightarrow> (nat \<times> int) list \<Rightarrow> error + unit" where
  "uniqueLoop d es [] = Inr ()"
| "uniqueLoop d es (u # us) =
     (if supportedElementType d (snd u) then
        (case elementLoop (fst u) es of
           Inl err \<Rightarrow> Inl err
         | Inr v \<Rightarrow> uniqueLoop d es us)
      else Inl (runtime_error (''GridFunction::evaluateAtVertices(): '' @
                               ''unsupported element type'')))"

text \<open>
  \<^verbatim>\<open>evaluateAtSpecialPoints\<close>, as far as its control flow goes: the matrix it would
  fill is not used by \<^verbatim>\<open>exportToVtk\<close> and is left out.
\<close>

definition evaluateAtSpecialPoints :: "GridFunction \<Rightarrow> DataType \<Rightarrow> error + unit" where
  "evaluateAtSpecialPoints gf dataType =
   (if dataType \<noteq> CELL_DATA \<and> dataType \<noteq> VERTEX_DATA then
      Inl (invalid_argument (''GridFunction::evaluateAtSpecialPoints(): '' @
                             ''invalid data type''))
    else uniqueLoop (gridDim gf) (basesAndCornerCounts gf)
           (uniqueBasesAndCornerCounts (basesAndCornerCounts gf)))"

text \<open>
  The state \<^verbatim>\<open>exportToVtk\<close> could change: the data attached to the VTK writer (as
  labels), the files written, and the grid function itself. The calls that attach the
  data are commented out in the source and the calls that write come after the
  unconditional \<^verbatim>\<open>throw\<close>.
\<close>

record VtkState =
  attachedData :: "string list"
  writtenFiles :: "string list"
  gridFunction :: GridFunction

definition exportToVtk ::
  "DataType \<Rightarrow> string \<Rightarrow> string \<Rightarrow> string option \<Rightarrow> OutputType \<Rightarrow> VtkState \<Rightarrow>
   (error + unit) \<times> VtkState" where
  "exportToVtk dataType dataLabel fileNamesBase filesPath type s =
   (case evaluateAtSpecialPoints (gridFunction s) dataType of
      Inl err \<Rightarrow> (Inl err, s)
    | Inr data \<Rightarrow> (Inl (logic_error ''NOT WORKING!!!''), s))"

definition tetrahedralGridFunction :: GridFunction where
  "tetrahedralGridFunction =
     \<lparr> gridDim = 3, basesAndCornerCounts = [(4096, 4)], m_coefficients = [1, 2, 3, 4] \<rparr>"

definition triangularGridFunction :: GridFunction where
  "triangularGridFunction =
     \<lparr> gridDim = 2, basesAndCornerCounts = [(4096, 3), (4096, 3)],
       m_coefficients = [1, 2, 3, 4] \<rparr>"

section \<open>FmmHighFreq\<close>

text \<open>
  The high-frequency transform for a complex \<^verbatim>\<open>ValueType\<close> (the only one for which
  \<^verbatim>\<open>getI\<close> returns); \<^verbatim>\<open>CoordinateType\<close> is the reals. An \<^verbatim>\<open>InterpolateOnSphere\<close>
  object is given by the two orders it is constructed from.
\<close>

record InterpolateOnSphere =
  oldL :: nat
  newL :: nat

record FmmHighFreq =
  m_kappa :: complex
  m_Ls :: "nat list"
  m_interpolatorsUpwards :: "InterpolateOnSphere list"
  m_interpolatorsDownwards :: "InterpolateOnSphere list"

text \<open>
  The library functions the transform calls: \<^verbatim>\<open>legendre_roots\<close> (for a number of
  points, the two arrays it fills with the roots and the weights, by index),
  \<^verbatim>\<open>amos::zbesh\<close> (from \<^verbatim>\<open>zr zi nu kode kind N\<close> to \<^verbatim>\<open>cyr cyi nz ierr\<close>),
  \<^verbatim>\<open>boost::math::legendre_p\<close>, and the member function \<^verbatim>\<open>interpolate\<close> of
  \<^verbatim>\<open>InterpolateOnSphere\<close>.
\<close>

record Library =
  legendre_roots :: "nat \<Rightarrow> (nat \<Rightarrow> real) \<times> (nat \<Rightarrow> real)"
  zbesh :: "real \<Rightarrow> real \<Rightarrow> real \<Rightarrow> int \<Rightarrow> int \<Rightarrow> int \<Rightarrow> real \<times> real \<times> int \<times> int"
  legendre_p :: "nat \<Rightarrow> real \<Rightarrow> real"
  interpolateOnSphere :: "InterpolateOnSphere \<Rightarrow> complex list \<Rightarrow> complex list"

text \<open>
  The order computed for a level in the constructor, with \<^verbatim>\<open>boxsize = 2\<close> and
  \<^verbatim>\<open>prec = 8\<close>, before it is rounded up.
\<close>

definition Llevel :: "complex \<Rightarrow> nat \<Rightarrow> real" where
  "Llevel kappa level =
     sqrt 3 * cmod kappa * 2 / 2 ^ level
     + 8 * log 10 (sqrt 3 * cmod kappa * 2 / 2 ^ level + pi)"

text \<open>
  The entries of \<^verbatim>\<open>m_Ls\<close> are of type \<^verbatim>\<open>unsigned int\<close>, 32 bits wide: a value
  stored there is kept modulo \<^verbatim>\<open>2^32\<close>. This is the conversion of the rounded order
  \<^verbatim>\<open>ceil(Llevel)\<close>, a whole number that is never negative, and of the argument \<^verbatim>\<open>L\<close>.
\<close>

definition toUnsignedInt :: "int \<Rightarrow> nat" where
  "toUnsignedInt n = nat n mod 2 ^ 32"

text \<open>
  The vector \<^verbatim>\<open>m_Ls\<close> after the constructor: \<^verbatim>\<open>levels - 1\<close> entries, the entry of
  the leaf level set to \<^verbatim>\<open>L\<close>, then the entries of the levels from \<^verbatim>\<open>m_topLevel = 2\<close>
  to \<^verbatim>\<open>levels - 1\<close> overwritten in turn with \<^verbatim>\<open>ceil(Llevel)\<close>.
\<close>

definition FmmHighFreq_Ls :: "complex \<Rightarrow> nat \<Rightarrow> nat \<Rightarrow> nat list" where
  "FmmHighFreq_Ls kappa L levels =
     fold (\<lambda>level Ls. Ls[level - 2 := toUnsignedInt \<lceil>Llevel kappa level\<rceil>]) [2..<levels]
       ((replicate (levels - 1) 0)[levels - 2 := toUnsignedInt (int L)])"

text \<open>
  The constructor. With fewer than two levels the sizes \<^verbatim>\<open>levels - 1\<close> and
  \<^verbatim>\<open>levels - 2\<close> wrap around or the write of the leaf entry is outside the vector.
\<close>

definition FmmHighFreq :: "complex \<Rightarrow> nat \<Rightarrow> nat \<Rightarrow> error + FmmHighFreq" where
  "FmmHighFreq kappa L levels =
   (if levels < 2 then Inl out_of_range
    else
      let Ls = FmmHighFreq_Ls kappa L levels
      in Inr \<lparr> m_kappa = kappa, m_Ls = Ls,
               m_interpolatorsUpwards =
                 map (\<lambda>level. \<lparr> oldL = Ls ! (level - 2 + 1), newL = Ls ! (level - 2) \<rparr>)
                   [2..<levels],
               m_interpolatorsDownwards =
                 map (\<lambda>level. \<lparr> oldL = Ls ! (level - 2), newL = Ls ! (level - 2 + 1) \<rparr>)
                   [2..<levels] \<rparr>)"

text \<open>Positions and directions are vectors of three coordinates.\<close>

type_synonym Col3 = "real \<times> real \<times> real"

fun vminus :: "Col3 \<Rightarrow> Col3 \<Rightarrow> Col3" where
  "vminus (a, b, c) (x, y, z) = (a - x, b - y, c - z)"

fun dot :: "Col3 \<Rightarrow> Col3 \<Rightarrow> real" where
  "dot (a, b, c) (x, y, z) = a * x + b * y + c * z"

fun norm2 :: "Col3 \<Rightarrow> real" where
  "norm2 (a, b, c) = sqrt (a * a + b * b + c * c)"

fun vdiv :: "Col3 \<Rightarrow> real \<Rightarrow> Col3" where
  "vdiv (a, b, c) r = (a / r, b / r, c / r)"

text \<open>
  The quadrature directions \<^verbatim>\<open>khat\<close> for the order \<^verbatim>\<open>L\<close>, in the order of the two
  nested loops over \<^verbatim>\<open>ntheta\<close> and \<^verbatim>\<open>m\<close> that \<^verbatim>\<open>M2M\<close> and \<^verbatim>\<open>M2L\<close> share.
\<close>

definition quadratureDirections :: "Library \<Rightarrow> nat \<Rightarrow> Col3 list" where
  "quadratureDirections lib L =
   (let costheta = fst (legendre_roots lib (L + 1));
        sintheta = map (\<lambda>l. sqrt (1 - costheta l * costheta l)) [0..<L + 1];
        cosphi = map (\<lambda>l. cos (2 * pi * real l / real (2 * L + 1))) [0..<2 * L + 1];
        sinphi = map (\<lambda>l. sin (2 * pi * real l / real (2 * L + 1))) [0..<2 * L + 1]
    in concat (map (\<lambda>ntheta. map (\<lambda>m.
         (sintheta ! ntheta * cosphi ! m, sintheta ! ntheta * sinphi ! m, costheta ntheta))
       [0..<2 * L + 1]) [0..<L + 1]))"

definition M2M :: "Library \<Rightarrow> FmmHighFreq \<Rightarrow> Col3 \<Rightarrow> Col3 \<Rightarrow> nat \<Rightarrow> error + complex list" where
  "M2M lib fmm childPosition parentPosition level =
   (if level < 2 \<or> length (m_Ls fmm) \<le> level - 2 then Inl out_of_range
    else
      let L = m_Ls fmm ! (level - 2);
          R = vminus parentPosition childPosition
      in Inr (map (\<lambda>khat.
           let rcostheta = dot R khat
           in exp (- m_kappa fmm * complex_of_real rcostheta))
         (quadratureDirections lib L)))"

definition L2L :: "Library \<Rightarrow> FmmHighFreq \<Rightarrow> Col3 \<Rightarrow> Col3 \<Rightarrow> nat \<Rightarrow> error + complex list" where
  "L2L lib fmm parentPosition childPosition level = M2M lib fmm parentPosition childPosition level"

definition interpolate_base :: "nat \<Rightarrow> nat \<Rightarrow> complex list \<Rightarrow> complex list" where
  "interpolate_base levelOld levelNew coefficientsOld = coefficientsOld"

definition interpolate ::
  "Library \<Rightarrow> FmmHighFreq \<Rightarrow> nat \<Rightarrow> nat \<Rightarrow> complex list \<Rightarrow> error + complex list" where
  "interpolate lib fmm levelOld levelNew coefficientsOld =
   (if levelOld > levelNew then
      (if levelNew < 2 \<or> length (m_interpolatorsUpwards fmm) \<le> levelNew - 2 then
         Inl out_of_range
       else Inr (interpolateOnSphere lib (m_interpolatorsUpwards fmm ! (levelNew - 2))
                   coefficientsOld))
    else
      (if levelOld < 2 \<or> length (m_interpolatorsDownwards fmm) \<le> levelOld - 2 then
         Inl out_of_range
       else Inr (interpolateOnSphere lib (m_interpolatorsDownwards fmm ! (levelOld - 2))
                   coefficientsOld)))"

text \<open>
  \<^verbatim>\<open>M2L\<close>. For one order \<^verbatim>\<open>l\<close> of its outer loop, the branch \<^verbatim>\<open>l <= L\<close> computes
  \<^verbatim>\<open>scaledhl\<close> from the Hankel function and throws when \<^verbatim>\<open>zbesh\<close> reports an error;
  the other branch computes the window \<^verbatim>\<open>CLLdash\<close> and leaves \<^verbatim>\<open>scaledhl\<close> as it was
  default-constructed, zero. The message of the exception is read from an array of six
  strings at the index \<^verbatim>\<open>ierr\<close>.
\<close>

definition amosErrorMessages :: "string list" where
  "amosErrorMessages =
    [''IERR=0, NORMAL RETURN - COMPUTATION COMPLETED'',
     ''IERR=1, INPUT ERROR   - NO COMPUTATION'',
     ''IERR=2, OVERFLOW      - NO COMPUTATION, FNU IS'' @
     ''        TOO LARGE OR CABS(Z) IS TOO SMALL OR BOTH'',
     ''IERR=3, CABS(Z) OR FNU+N-1 LARempp/bempp/lib/fmm/fmm_black_box.cpp:156:47: error:GE - COMPUTATION DONE'' @
     ''        BUT LOSSES OF SIGNIFCANCE BY ARGUMENT'' @
     ''        REDUCTION PRODUCE LESS THAN HALF OF MACHINE'' @
     ''        ACCURACY'',
     ''IERR=4, CABS(Z) OR FNU+N-1 TOO LARGE - NO COMPUTA-'' @
     ''        TION BECAUSE OF COMPLETE LOSSES OF SIGNIFI-'' @
     ''        CANCE BY ARGUMENT REDUCTION'',
     ''IERR=5, ERROR              - NO COMPUTATION,'' @
     ''        ALGORITHM TERMINATION CONDITION NOT MET'']"

definition zbesh_ierr :: "Library \<Rightarrow> FmmHighFreq \<Rightarrow> real \<Rightarrow> nat \<Rightarrow> int" where
  "zbesh_ierr lib fmm r l =
   (let z = \<i> * m_kappa fmm * complex_of_real r
    in snd (snd (snd (zbesh lib (Re z) (Im z) (real l + 0.5) 1 1 1))))"

definition scaledhl :: "Library \<Rightarrow> FmmHighFreq \<Rightarrow> real \<Rightarrow> nat \<Rightarrow> nat \<Rightarrow> error + complex" where
  "scaledhl lib fmm r L l =
   (if l \<le> L then
      let z = \<i> * m_kappa fmm * complex_of_real r;
          zr = Re z;
          zi = Im z;
          nu = real l + 0.5;
          (cyr, cyi, nz, ierr) = zbesh lib zr zi nu 1 1 1;
          hl = csqrt (complex_of_real pi / (2 * z)) * (complex_of_real cyr + \<i> * complex_of_real cyi)
      in if ierr \<noteq> 0 then
           (if 0 \<le> ierr \<and> ierr < 6 then
              Inl (invalid_argument (''FmmHighFreq::M2L(x1, x2): '' @ ''AMOS: '' @
                                     amosErrorMessages ! nat ierr))
            else Inl out_of_range)
         else Inr (- m_kappa fmm / complex_of_real (16 * pi * pi) * \<i> ^ l
                   * complex_of_real (real (2 * l + 1)) * hl)
    else Inr 0)"

definition CLLdash :: "nat \<Rightarrow> nat \<Rightarrow> nat \<Rightarrow> real" where
  "CLLdash L Ldash l =
   (if l \<le> L then 1
    else (cos (real (l - L) * pi / real (2 * (Ldash - L)))) ^ 2)"

text \<open>
  The orders the outer loop of \<^verbatim>\<open>M2L\<close> runs through at a level, each with the window
  factor its terms are multiplied by: \<^verbatim>\<open>Ldash\<close> is initialised to \<^verbatim>\<open>L\<close> and the
  statement that would lower \<^verbatim>\<open>L\<close> is commented out.
\<close>

definition M2L_taper :: "FmmHighFreq \<Rightarrow> nat \<Rightarrow> (nat \<times> real) list" where
  "M2L_taper fmm level =
   (let L = m_Ls fmm ! (level - 2);
        Ldash = L
    in map (\<lambda>l. (l, CLLdash L Ldash l)) [0..<Ldash + 1])"

definition clampCos :: "real \<Rightarrow> real" where
  "clampCos costheta =
   (let c1 = (if costheta > 1 then 1 else costheta)
    in if c1 < - 1 then - 1 else c1)"

fun M2L_loop ::
  "Library \<Rightarrow> FmmHighFreq \<Rightarrow> real \<Rightarrow> Col3 \<Rightarrow> nat \<Rightarrow> Col3 list \<Rightarrow> (nat \<times> real) list \<Rightarrow>
   complex list \<Rightarrow> error + complex list" where
  "M2L_loop lib fmm r Rhat L khats [] T = Inr T"
| "M2L_loop lib fmm r Rhat L khats ((l, w) # rest) T =
     (case scaledhl lib fmm r L l of
        Inl err \<Rightarrow> Inl err
      | Inr shl \<Rightarrow>
          M2L_loop lib fmm r Rhat L khats rest
            (map2 (\<lambda>Tp khat. Tp + shl * complex_of_real w
                     * complex_of_real (legendre_p lib l (clampCos (dot Rhat khat))))
               T khats))"

definition M2L ::
  "Library \<Rightarrow> FmmHighFreq \<Rightarrow> Col3 \<Rightarrow> Col3 \<Rightarrow> Col3 \<Rightarrow> nat \<Rightarrow> error + complex list" where
  "M2L lib fmm sourceCentre fieldCentre boxSize level =
   (if level < 2 \<or> length (m_Ls fmm) \<le> level - 2 then Inl out_of_range
    else
      let L = m_Ls fmm ! (level - 2);
          khats = quadratureDirections lib L;
          quadraturePointCount = (L + 1) * (2 * L + 1);
          T = replicate quadraturePointCount 0;
          xvec = vminus fieldCentre sourceCentre;
          r = norm2 xvec;
          Rhat = vdiv xvec r
      in M2L_loop lib fmm r Rhat L khats (M2L_taper fmm level) T)"

text \<open>A library and a transform with one level of order 2, to run the operators on.\<close>

definition exampleLibrary :: Library where
  "exampleLibrary =
     \<lparr> legendre_roots = (\<lambda>n. (\<lambda>i. 0, \<lambda>i. 1)),
       zbesh = (\<lambda>zr zi nu kode kind n. (0, 0, 0, if nu > 2 then 2 else 0)),
       legendre_p = (\<lambda>l x. 1),
       interpolateOnSphere = (\<lambda>i cs. take (newL i) cs) \<rparr>"

definition exampleFmm :: FmmHighFreq where
  "exampleFmm =
     \<lparr> m_kappa = \<i>, m_Ls = [2], m_interpolatorsUpwards = [],
       m_interpolatorsDownwards = [] \<rparr>"

section \<open>OctreeNode: neighbour list and interaction list\<close>

text \<open>
  Modelled from the spec: the octree read by \<^verbatim>\<open>OctreeNode::makeNeigbourList\<close> and
  \<^verbatim>\<open>OctreeNode::makeInteractionList\<close> (class \<^verbatim>\<open>Octree\<close> is missing from the sources,
  and of \<^verbatim>\<open>OctreeNode\<close> only the declarations are there). The octree has the levels
  \<^verbatim>\<open>0, ..., L\<close>; a node is a level and a box of that level, and a box is named by its
  three integer coordinates (the Morton number interleaves their bits). Each leaf has its
  number of degrees of freedom.
\<close>

type_synonym box = "nat \<times> nat \<times> nat"

record Octree =
  octreeLevels :: nat
  leafDofCount :: "box \<Rightarrow> nat"

text \<open>
  Modelled from the spec: the octant structure of the missing class \<^verbatim>\<open>Octree\<close>: each
  box is halved along each axis, so a box has eight children and, below the root, one
  parent.
\<close>

fun children :: "box \<Rightarrow> box list" where
  "children (x, y, z) =
     concat (map (\<lambda>i. concat (map (\<lambda>j. map (\<lambda>k. (2 * x + i, 2 * y + j, 2 * z + k))
       [0, 1]) [0, 1])) [0, 1])"

fun parent :: "box \<Rightarrow> box" where
  "parent (x, y, z) = (x div 2, y div 2, z div 2)"

text \<open>
  Modelled from the spec: the count of degrees of freedom of a node (the point assignment
  of the missing class \<^verbatim>\<open>Octree\<close> sets the counts of the leaves and aggregates them up
  to the ancestors). The first argument of \<^verbatim>\<open>dofCountAbove\<close> is the number of levels
  between the node and the leaves.
\<close>

fun dofCountAbove :: "(box \<Rightarrow> nat) \<Rightarrow> nat \<Rightarrow> box \<Rightarrow> nat" where
  "dofCountAbove leaf 0 b = leaf b"
| "dofCountAbove leaf (Suc d) b = sum_list (map (dofCountAbove leaf d) (children b))"

definition getDofCount :: "Octree \<Rightarrow> nat \<Rightarrow> box \<Rightarrow> nat" where
  "getDofCount octree level b =
     dofCountAbove (leafDofCount octree) (octreeLevels octree - level) b"

text \<open>
  Modelled from the spec: \<^verbatim>\<open>OctreeNode::isEmpty\<close>, whose body is missing: a node is
  empty exactly when its count of degrees of freedom is zero.
\<close>

definition isEmpty :: "Octree \<Rightarrow> nat \<Rightarrow> box \<Rightarrow> bool" where
  "isEmpty octree level b = (getDofCount octree level b = 0)"

text \<open>
  Modelled from the spec: the node slots of a level of the missing class \<^verbatim>\<open>Octree\<close>,
  \<^verbatim>\<open>2^level\<close> boxes along each axis.
\<close>

definition boxesAt :: "nat \<Rightarrow> box list" where
  "boxesAt level =
     concat (map (\<lambda>x. concat (map (\<lambda>y. map (\<lambda>z. (x, y, z))
       [0..<2 ^ level]) [0..<2 ^ level])) [0..<2 ^ level])"

text \<open>
  Modelled from the spec: when two boxes of a level touch or overlap (they share a face,
  an edge or a corner, or are the same box), the test of the missing body of
  \<^verbatim>\<open>makeNeigbourList\<close>: no coordinate differs by more than one.
\<close>

fun touches :: "box \<Rightarrow> box \<Rightarrow> bool" where
  "touches (x, y, z) (x', y', z') =
     (x \<le> x' + 1 \<and> x' \<le> x + 1 \<and> y \<le> y' + 1 \<and> y' \<le> y + 1 \<and> z \<le> z' + 1 \<and> z' \<le> z + 1)"

text \<open>
  Modelled from the spec: \<^verbatim>\<open>OctreeNode::makeNeigbourList\<close>, whose body is missing. For
  a non-empty node the neighbour list holds the other boxes of its level that touch it and
  are not empty; an empty node is in no list and has none.
\<close>

definition makeNeigbourList :: "Octree \<Rightarrow> nat \<Rightarrow> box \<Rightarrow> box list" where
  "makeNeigbourList octree level b =
   (if isEmpty octree level b then []
    else filter (\<lambda>c. c \<noteq> b \<and> touches b c \<and> \<not> isEmpty octree level c) (boxesAt level))"

text \<open>
  Modelled from the spec: \<^verbatim>\<open>OctreeNode::makeInteractionList\<close>, whose body is missing.
  For a non-empty node the interaction list holds the boxes of its level that are children
  of the neighbours of its parent and are not in its own neighbour list, without the empty
  ones.
\<close>

definition makeInteractionList :: "Octree \<Rightarrow> nat \<Rightarrow> box \<Rightarrow> box list" where
  "makeInteractionList octree level b =
   (if isEmpty octree level b then []
    else filter (\<lambda>c. \<not> isEmpty octree level c \<and> c \<notin> set (makeNeigbourList octree level b))
           (concat (map children (makeNeigbourList octree (level - 1) (parent b)))))"

text \<open>
  An octree of two levels with three non-empty leaves: a box in a corner, the box next to
  it in the same parent, and a box two steps further.
\<close>

definition threeLeafOctree :: Octree where
  "threeLeafOctree =
     \<lparr> octreeLevels = 2,
       leafDofCount = (\<lambda>b. if b = (0, 0, 0) then 2 else if b = (1, 0, 0) then 1
                           else if b = (3, 0, 0) then 4 else 0) \<rparr>"

section \<open>Theorems\<close>

text \<open>
  C9. The constructor of \<^verbatim>\<open>SeparableNumericalTestKernelTrialIntegrator\<close> raises an
  invalid-argument error if and only if the number of test quadrature points (columns of
  the matrix of test points) differs from the number of test weights or the number of
  trial points differs from the number of trial weights; when both counts match the
  construction succeeds and the stored points and weights are the arguments, unmodified.
\<close>

theorem constructor_checks_point_and_weight_counts:
  "((\<exists>msg. SeparableNumericalTestKernelTrialIntegrator tp rp tw rw g te k re cl
        = Inl (invalid_argument msg))
     \<longleftrightarrow> (n_cols tp \<noteq> length tw \<or> n_cols rp \<noteq> length rw))
   \<and> (isl (SeparableNumericalTestKernelTrialIntegrator tp rp tw rw g te k re cl)
     \<longleftrightarrow> (n_cols tp \<noteq> length tw \<or> n_cols rp \<noteq> length rw))
   \<and> (n_cols tp = length tw \<and> n_cols rp = length rw \<longrightarrow>
       (\<exists>I. SeparableNumericalTestKernelTrialIntegrator tp rp tw rw g te k re cl = Inr I
          \<and> m_localTestQuadPoints I = tp \<and> m_localTrialQuadPoints I = rp
          \<and> m_testQuadWeights I = tw \<and> m_trialQuadWeights I = rw))"
  by (simp add: SeparableNumericalTestKernelTrialIntegrator_def)

theorem constructor_checks_point_and_weight_counts_witness:
  "n_cols onePoint = length [1/2::real] \<and> n_cols noPoints = length ([]::real list) \<and>
   (\<exists>I. SeparableNumericalTestKernelTrialIntegrator onePoint noPoints [1/2] []
           constantGeometry scalarExpression scalarKernel0 scalarExpression
           \<lparr> UseOpenCl = False \<rparr> = Inr I
        \<and> m_localTestQuadPoints I = onePoint \<and> m_localTrialQuadPoints I = noPoints
        \<and> m_testQuadWeights I = [1/2] \<and> m_trialQuadWeights I = [])"
  using constructor_checks_point_and_weight_counts
    [of onePoint noPoints "[1/2]" "[]" constantGeometry scalarExpression scalarKernel0
        scalarExpression "\<lparr> UseOpenCl = False \<rparr>"]
  by (simp add: onePoint_def noPoints_def)

text \<open>
  What the element-pair overload of \<^verbatim>\<open>integrateCpu\<close> does when nothing is degenerate
  and the assertions hold: the cube is resized to (testDofCount, trialDofCount, pairCount).
\<close>

lemma integrateCpu_resizes:
  assumes "n_cols (m_localTestQuadPoints I) \<noteq> 0" "n_cols (m_localTrialQuadPoints I) \<noteq> 0"
    "elementIndexPairs \<noteq> []" "integrateCpu I elementIndexPairs testBasis trialBasis result = Inr r"
  shows "cube_n_rows r = basis_size testBasis \<and> cube_n_cols r = basis_size trialBasis
    \<and> cube_n_slices r = length elementIndexPairs"
  using assms by (auto simp: integrateCpu_def Let_def split: if_splits)

text \<open>
  C10. For the element-index-pair overload of \<^verbatim>\<open>integrate\<close> on the CPU path (OpenCL
  not in use): if the list of element index pairs is empty, or the test quadrature rule
  has no points, or the trial quadrature rule has no points, the function returns at once
  and the output cube \<^verbatim>\<open>result\<close> is exactly what it was: not resized, not zeroed.
\<close>

theorem integrate_degenerate_leaves_result_unchanged:
  assumes "\<not> UseOpenCl (m_openClHandler I)"
    and "elementIndexPairs = [] \<or> n_cols (m_localTestQuadPoints I) = 0
         \<or> n_cols (m_localTrialQuadPoints I) = 0"
  shows "integrate I elementIndexPairs testBasis trialBasis result = Inr result"
  using assms by (auto simp: integrate_def integrateCpu_def Let_def)

theorem integrate_degenerate_leaves_result_unchanged_witness:
  "\<not> UseOpenCl (m_openClHandler emptyQuadratureIntegrator)
   \<and> n_cols (m_localTestQuadPoints emptyQuadratureIntegrator) = 0
   \<and> integrate emptyQuadratureIntegrator [(0, 1), (2, 3)] linearBasis linearBasis staleCube
       = Inr staleCube
   \<and> cube_n_rows staleCube \<noteq> basis_size linearBasis
   \<and> length (cube_mem staleCube) \<noteq> 3 * 3 * 2"
  using integrate_degenerate_leaves_result_unchanged
    [of emptyQuadratureIntegrator "[(0, 1), (2, 3)]" linearBasis linearBasis staleCube]
  by (simp add: emptyQuadratureIntegrator_def noPoints_def staleCube_def linearBasis_def)

text \<open>
  C5. Whenever \<^verbatim>\<open>assembleDetachedWeakForm\<close> is called with \<^verbatim>\<open>hermitian = true\<close> and
  the numbers of degrees of freedom of the test and the trial space differ, the call
  fails with an invalid-argument error, no operator is returned, and before the failure
  the octree has not been built, no points have been assigned and no near- or far-field
  caching has started (only the two writes to the standard output have happened).
\<close>

theorem hermitian_dof_mismatch_fails_before_octree:
  assumes "hermitian" and "globalDofCount testSpace \<noteq> globalDofCount trialSpace"
  shows "(\<exists>msg. snd (assembleDetachedWeakForm testSpace trialSpace levels is_complex hermitian)
            = Inl (invalid_argument msg))
    \<and> filter startsOctreeWork
        (fst (assembleDetachedWeakForm testSpace trialSpace levels is_complex hermitian)) = []
    \<and> fst (assembleDetachedWeakForm testSpace trialSpace levels is_complex hermitian)
        = [StdOut, StdOut]"
  using assms by (simp add: assembleDetachedWeakForm_def)

theorem hermitian_dof_mismatch_fails_before_octree_witness:
  "globalDofCount \<lparr> globalDofCount = 6, flatLocalDofCount = 6, boundingBoxLower = [0, 0, 0],
                    boundingBoxUpper = [1, 1, 1] \<rparr>
     \<noteq> globalDofCount \<lparr> globalDofCount = 8, flatLocalDofCount = 6,
                         boundingBoxLower = [0, 0, 0], boundingBoxUpper = [1, 1, 1] \<rparr>
   \<and> fst (assembleDetachedWeakForm
        \<lparr> globalDofCount = 6, flatLocalDofCount = 6, boundingBoxLower = [0, 0, 0],
          boundingBoxUpper = [1, 1, 1] \<rparr>
        \<lparr> globalDofCount = 8, flatLocalDofCount = 6, boundingBoxLower = [0, 0, 0],
          boundingBoxUpper = [1, 1, 1] \<rparr> 3 True True) = [StdOut, StdOut]"
  using hermitian_dof_mismatch_fails_before_octree
    [of True "\<lparr> globalDofCount = 6, flatLocalDofCount = 6, boundingBoxLower = [0, 0, 0],
                boundingBoxUpper = [1, 1, 1] \<rparr>"
        "\<lparr> globalDofCount = 8, flatLocalDofCount = 6, boundingBoxLower = [0, 0, 0],
           boundingBoxUpper = [1, 1, 1] \<rparr>" 3 True]
  by simp

text \<open>
  In every other case the assembler goes on: the octree is built and an operator is
  returned.
\<close>

lemma assembleDetachedWeakForm_succeeds:
  assumes "\<not> hermitian \<or> globalDofCount testSpace = globalDofCount trialSpace"
  shows "\<exists>op. snd (assembleDetachedWeakForm testSpace trialSpace levels is_complex hermitian)
            = Inr op
    \<and> rowCount op = globalDofCount testSpace \<and> columnCount op = globalDofCount trialSpace
    \<and> filter startsOctreeWork
        (fst (assembleDetachedWeakForm testSpace trialSpace levels is_complex hermitian)) \<noteq> []"
  using assms by (auto simp: assembleDetachedWeakForm_def Let_def)

text \<open>The set of unique pairs holds exactly the pairs of the elements.\<close>

lemma pair_less_neither: "\<not> pair_less x y \<Longrightarrow> \<not> pair_less y x \<Longrightarrow> x = y"
  by (cases x; cases y) (auto simp: pair_less_def)

lemma set_set_insert: "set (set_insert x ys) = insert x (set ys)"
  by (induction ys) (auto dest: pair_less_neither)

lemma set_fold_set_insert: "set (fold set_insert es acc) = set es \<union> set acc"
  by (induction es arbitrary: acc) (auto simp: set_set_insert)

lemma set_uniqueBasesAndCornerCounts: "set (uniqueBasesAndCornerCounts es) = set es"
  by (simp add: uniqueBasesAndCornerCounts_def set_fold_set_insert)

lemma elementLoop_throws:
  "a \<in> fst ` set es \<Longrightarrow> elementLoop a es = Inl (logic_error ''NOT WORKING!!!'')"
  by (induction es) auto

lemma uniqueLoop_supported:
  assumes "set us \<subseteq> set es" "us \<noteq> []" "\<forall>e \<in> set es. supportedElementType d (snd e)"
  shows "uniqueLoop d es us = Inl (logic_error ''NOT WORKING!!!'')"
proof (cases us)
  case Nil
  with assms show ?thesis by simp
next
  case (Cons u rest)
  with assms have "u \<in> set es" by auto
  then have "elementLoop (fst u) es = Inl (logic_error ''NOT WORKING!!!'')"
    by (intro elementLoop_throws) auto
  moreover have "supportedElementType d (snd u)" using \<open>u \<in> set es\<close> assms(3) by blast
  ultimately show ?thesis using Cons by simp
qed

lemma uniqueLoop_nonempty_fails:
  assumes "set us \<subseteq> set es" "us \<noteq> []"
  shows "isl (uniqueLoop d es us)"
proof (cases us)
  case Nil
  with assms show ?thesis by simp
next
  case (Cons u rest)
  with assms have "u \<in> set es" by auto
  then have "elementLoop (fst u) es = Inl (logic_error ''NOT WORKING!!!'')"
    by (intro elementLoop_throws) auto
  then show ?thesis using Cons by simp
qed

text \<open>
  C8, as the code has it. Every call of \<^verbatim>\<open>exportToVtk\<close>, with any data type, label,
  file names, path and output type, ends in an exception; nothing is attached to the VTK
  writer, no file is written and the grid function is unchanged. When the data type is one
  of the two named ones and every element of the grid has a supported type, the exception
  is the logic error with the message NOT WORKING!!!. Otherwise
  \<^verbatim>\<open>evaluateAtSpecialPoints\<close> may throw first: an invalid-argument error for another
  data type, or a runtime error (which is no logic error) for an unsupported element type.
\<close>

theorem exportToVtk_always_fails:
  "(\<exists>err. exportToVtk dataType dataLabel fileNamesBase filesPath type s = (Inl err, s))
   \<and> (dataType \<noteq> OTHER_DATA \<and>
      (\<forall>e \<in> set (basesAndCornerCounts (gridFunction s)).
          supportedElementType (gridDim (gridFunction s)) (snd e)) \<longrightarrow>
      exportToVtk dataType dataLabel fileNamesBase filesPath type s
        = (Inl (logic_error ''NOT WORKING!!!''), s))"
proof (intro conjI impI)
  show "\<exists>err. exportToVtk dataType dataLabel fileNamesBase filesPath type s = (Inl err, s)"
    by (auto simp: exportToVtk_def split: sum.splits)
next
  assume a: "dataType \<noteq> OTHER_DATA \<and>
      (\<forall>e \<in> set (basesAndCornerCounts (gridFunction s)).
          supportedElementType (gridDim (gridFunction s)) (snd e))"
  let ?es = "basesAndCornerCounts (gridFunction s)"
  let ?us = "uniqueBasesAndCornerCounts ?es"
  have valid: "\<not> (dataType \<noteq> CELL_DATA \<and> dataType \<noteq> VERTEX_DATA)"
    using a by (cases dataType) auto
  show "exportToVtk dataType dataLabel fileNamesBase filesPath type s
        = (Inl (logic_error ''NOT WORKING!!!''), s)"
  proof (cases "?us = []")
    case True
    then show ?thesis using valid
      by (simp add: exportToVtk_def evaluateAtSpecialPoints_def)
  next
    case False
    have "uniqueLoop (gridDim (gridFunction s)) ?es ?us = Inl (logic_error ''NOT WORKING!!!'')"
      using a False by (intro uniqueLoop_supported) (auto simp: set_uniqueBasesAndCornerCounts)
    then show ?thesis using valid
      by (simp add: exportToVtk_def evaluateAtSpecialPoints_def)
  qed
qed

theorem exportToVtk_always_fails_witness:
  "CELL_DATA \<noteq> OTHER_DATA
   \<and> basesAndCornerCounts triangularGridFunction = [(4096, 3), (4096, 3)]
   \<and> supportedElementType (gridDim triangularGridFunction) 3
   \<and> exportToVtk CELL_DATA ''u'' ''out'' None 0
        \<lparr> attachedData = [], writtenFiles = [], gridFunction = triangularGridFunction \<rparr>
      = (Inl (logic_error ''NOT WORKING!!!''),
         \<lparr> attachedData = [], writtenFiles = [], gridFunction = triangularGridFunction \<rparr>)"
  using exportToVtk_always_fails [of CELL_DATA "''u''" "''out''" None 0
      "\<lparr> attachedData = [], writtenFiles = [], gridFunction = triangularGridFunction \<rparr>"]
  by (simp add: triangularGridFunction_def supportedElementType_def)

text \<open>
  On a grid of dimension three with one element of four corners the call raises the
  runtime error of \<^verbatim>\<open>evaluateAtSpecialPoints\<close>, so not every call raises a logic
  error.
\<close>

theorem exportToVtk_runtime_error_counterexample:
  "\<not> (\<exists>err. fst (exportToVtk CELL_DATA ''u'' ''out'' None 0
          \<lparr> attachedData = [], writtenFiles = [], gridFunction = tetrahedralGridFunction \<rparr>)
        = Inl err \<and> is_logic_error err)"
  by (simp add: exportToVtk_def evaluateAtSpecialPoints_def tetrahedralGridFunction_def
      uniqueBasesAndCornerCounts_def supportedElementType_def)

text \<open>The entries of \<^verbatim>\<open>m_Ls\<close> after the loop of the constructor.\<close>

lemma length_fold_update:
  "length (fold (\<lambda>level Ls. Ls[level - 2 := g level]) xs Ls0) = length Ls0"
  by (induction xs arbitrary: Ls0) auto

lemma nth_fold_update:
  "i < length Ls0 \<Longrightarrow>
   fold (\<lambda>level Ls. Ls[level - 2 := g level]) [2..<n] Ls0 ! i
     = (if i + 2 < n then g (i + 2) else Ls0 ! i)"
proof (induction n)
  case 0
  then show ?case by simp
next
  case (Suc n)
  show ?case
  proof (cases "2 \<le> n")
    case True
    then have split: "[2..<Suc n] = [2..<n] @ [n]" by simp
    let ?F = "fold (\<lambda>level Ls. Ls[level - 2 := g level]) [2..<n] Ls0"
    have len: "length ?F = length Ls0" by (rule length_fold_update)
    have step: "fold (\<lambda>level Ls. Ls[level - 2 := g level]) [2..<Suc n] Ls0 = ?F[n - 2 := g n]"
      by (simp only: split fold_append fold.simps comp_def id_def)
    show ?thesis
    proof (cases "i = n - 2")
      case True
      with \<open>2 \<le> n\<close> have "i + 2 = n" by simp
      then show ?thesis using Suc.prems len True by (simp add: step)
    next
      case False
      then have "?F[n - 2 := g n] ! i = ?F ! i" by simp
      moreover have "i + 2 < Suc n \<longleftrightarrow> i + 2 < n" using False \<open>2 \<le> n\<close> by auto
      ultimately show ?thesis using Suc.IH [OF Suc.prems] by (simp only: step)
    qed
  next
    case False
    then show ?thesis by simp
  qed
qed

lemma length_FmmHighFreq_Ls: "length (FmmHighFreq_Ls kappa L levels) = levels - 1"
  by (simp add: FmmHighFreq_Ls_def length_fold_update)

lemma nth_FmmHighFreq_Ls:
  "i + 2 < levels \<Longrightarrow>
   FmmHighFreq_Ls kappa L levels ! i = toUnsignedInt \<lceil>Llevel kappa (i + 2)\<rceil>"
  by (simp add: FmmHighFreq_Ls_def nth_fold_update)

lemma leaf_FmmHighFreq_Ls:
  assumes "2 \<le> levels"
  shows "FmmHighFreq_Ls kappa L levels ! (levels - 2) = toUnsignedInt (int L)"
proof -
  have "\<not> (levels - 2 + 2 < levels)" using assms by simp
  moreover have "levels - 2
      < length ((replicate (levels - 1) (0::nat))[levels - 2 := toUnsignedInt (int L)])"
    using assms by simp
  ultimately show ?thesis
    unfolding FmmHighFreq_Ls_def by (simp only: nth_fold_update if_False) simp
qed

lemma toUnsignedInt_in_range: "n < 2 ^ 32 \<Longrightarrow> toUnsignedInt n = nat n"
  by (simp add: toUnsignedInt_def nat_less_iff)

lemma Llevel_antimono:
  assumes "l1 \<le> l2"
  shows "Llevel kappa l2 \<le> Llevel kappa l1"
proof -
  let ?a = "sqrt 3 * cmod kappa * 2"
  have a0: "0 \<le> ?a" by simp
  have p: "(2::real) ^ l1 \<le> 2 ^ l2" using assms by (simp add: power_increasing)
  have q: "?a / 2 ^ l2 \<le> ?a / 2 ^ l1"
    using a0 p by (intro divide_left_mono) auto
  have pos: "0 < ?a / 2 ^ l2 + pi"
    using a0 by (intro add_nonneg_pos) auto
  have "log 10 (?a / 2 ^ l2 + pi) \<le> log 10 (?a / 2 ^ l1 + pi)"
    using q pos by (subst log_le_cancel_iff) auto
  then show ?thesis using q unfolding Llevel_def by linarith
qed

lemma Llevel_16_bound: "Llevel 16 2 \<le> 32"
proof -
  have "sqrt 3 \<le> sqrt 4" by (simp only: real_sqrt_le_iff)
  then have s: "sqrt 3 \<le> 2" by simp
  have s0: "0 \<le> sqrt 3" by simp
  have e: "sqrt 3 * 16 * 2 / 2 ^ 2 = 8 * sqrt 3" by simp
  have pos: "0 < 8 * sqrt 3 + pi" using s0 pi_gt_zero by linarith
  have h: "log 10 100 = (2::real)"
  proof -
    have "(100::real) = 10 powr 2" by simp
    then show ?thesis by (simp only: log_powr_cancel)
  qed
  have "8 * sqrt 3 + pi \<le> 100" using s pi_less_4 by linarith
  then have "log 10 (8 * sqrt 3 + pi) \<le> log 10 100"
    using pos by (subst log_le_cancel_iff) simp_all
  then have "log 10 (8 * sqrt 3 + pi) \<le> 2" by (simp only: h)
  then show ?thesis using s unfolding Llevel_def e by simp
qed

text \<open>
  C3, as the code has it. After the construction of \<^verbatim>\<open>FmmHighFreq\<close> with at least two
  levels, \<^verbatim>\<open>m_Ls\<close> has \<^verbatim>\<open>levels - 1\<close> entries; the entry of the leaf level is the
  given \<^verbatim>\<open>L\<close> (as an \<^verbatim>\<open>unsigned int\<close>), and the entry of each level \<^verbatim>\<open>l\<close> from 2 to
  \<^verbatim>\<open>levels - 1\<close> is \<^verbatim>\<open>ceil(Llevel)\<close> stored in an \<^verbatim>\<open>unsigned int\<close>, where
  \<^verbatim>\<open>Llevel = sqrt(3)*|kappa|*2/2^l + 8*log10(sqrt(3)*|kappa|*2/2^l + pi)\<close>. Over these
  levels the order does not increase with depth: for levels \<^verbatim>\<open>l1 <= l2\<close>, when the
  rounded order of \<^verbatim>\<open>l1\<close> is below \<^verbatim>\<open>2^32\<close> and so fits its entry, the entries of both
  levels are the rounded orders themselves and the order of the deeper level \<^verbatim>\<open>l2\<close> is
  at most the order of \<^verbatim>\<open>l1\<close>.
\<close>

theorem orders_nonincreasing_with_depth:
  assumes "FmmHighFreq kappa L levels = Inr fmm"
    and "2 \<le> l1" and "l1 \<le> l2" and "l2 < levels"
  shows "length (m_Ls fmm) = levels - 1
    \<and> m_Ls fmm ! (levels - 2) = L mod 2 ^ 32
    \<and> m_Ls fmm ! (l1 - 2) = nat \<lceil>Llevel kappa l1\<rceil> mod 2 ^ 32
    \<and> m_Ls fmm ! (l2 - 2) = nat \<lceil>Llevel kappa l2\<rceil> mod 2 ^ 32
    \<and> (\<lceil>Llevel kappa l1\<rceil> < 2 ^ 32 \<longrightarrow>
         m_Ls fmm ! (l1 - 2) = nat \<lceil>Llevel kappa l1\<rceil>
         \<and> m_Ls fmm ! (l2 - 2) = nat \<lceil>Llevel kappa l2\<rceil>
         \<and> m_Ls fmm ! (l2 - 2) \<le> m_Ls fmm ! (l1 - 2))"
proof -
  have Ls: "m_Ls fmm = FmmHighFreq_Ls kappa L levels"
    using assms(1) by (auto simp: FmmHighFreq_def Let_def split: if_splits)
  have lv: "2 \<le> levels" using assms by simp
  have e1: "l1 - 2 + 2 = l1" and e2: "l2 - 2 + 2 = l2" using assms by simp_all
  have n1: "m_Ls fmm ! (l1 - 2) = toUnsignedInt \<lceil>Llevel kappa l1\<rceil>"
    using assms Ls nth_FmmHighFreq_Ls [of "l1 - 2" levels kappa L] by (simp only: e1)
  have n2: "m_Ls fmm ! (l2 - 2) = toUnsignedInt \<lceil>Llevel kappa l2\<rceil>"
    using assms Ls nth_FmmHighFreq_Ls [of "l2 - 2" levels kappa L] by (simp only: e2)
  have mono: "\<lceil>Llevel kappa l2\<rceil> \<le> \<lceil>Llevel kappa l1\<rceil>"
    using Llevel_antimono [OF assms(3), of kappa] by (rule ceiling_mono)
  have len: "length (m_Ls fmm) = levels - 1"
    unfolding Ls by (rule length_FmmHighFreq_Ls)
  have leaf: "m_Ls fmm ! (levels - 2) = L mod 2 ^ 32"
    unfolding Ls leaf_FmmHighFreq_Ls [OF lv] by (simp add: toUnsignedInt_def)
  have inrange: "m_Ls fmm ! (l1 - 2) = nat \<lceil>Llevel kappa l1\<rceil>
         \<and> m_Ls fmm ! (l2 - 2) = nat \<lceil>Llevel kappa l2\<rceil>
         \<and> m_Ls fmm ! (l2 - 2) \<le> m_Ls fmm ! (l1 - 2)"
    if r: "\<lceil>Llevel kappa l1\<rceil> < 2 ^ 32"
  proof -
    have r2: "\<lceil>Llevel kappa l2\<rceil> < 2 ^ 32" using r mono by linarith
    have a: "m_Ls fmm ! (l1 - 2) = nat \<lceil>Llevel kappa l1\<rceil>"
      unfolding n1 using r by (rule toUnsignedInt_in_range)
    have b: "m_Ls fmm ! (l2 - 2) = nat \<lceil>Llevel kappa l2\<rceil>"
      unfolding n2 using r2 by (rule toUnsignedInt_in_range)
    have "nat \<lceil>Llevel kappa l2\<rceil> \<le> nat \<lceil>Llevel kappa l1\<rceil>"
      using mono by (rule nat_mono)
    then show ?thesis using a b by simp
  qed
  show ?thesis
  proof (intro conjI impI)
    show "length (m_Ls fmm) = levels - 1" by (rule len)
    show "m_Ls fmm ! (levels - 2) = L mod 2 ^ 32" by (rule leaf)
    show "m_Ls fmm ! (l1 - 2) = nat \<lceil>Llevel kappa l1\<rceil> mod 2 ^ 32"
      unfolding n1 by (simp add: toUnsignedInt_def)
    show "m_Ls fmm ! (l2 - 2) = nat \<lceil>Llevel kappa l2\<rceil> mod 2 ^ 32"
      unfolding n2 by (simp add: toUnsignedInt_def)
  next
    assume r: "\<lceil>Llevel kappa l1\<rceil> < 2 ^ 32"
    show "m_Ls fmm ! (l1 - 2) = nat \<lceil>Llevel kappa l1\<rceil>" using inrange [OF r] by blast
    show "m_Ls fmm ! (l2 - 2) = nat \<lceil>Llevel kappa l2\<rceil>" using inrange [OF r] by blast
    show "m_Ls fmm ! (l2 - 2) \<le> m_Ls fmm ! (l1 - 2)" using inrange [OF r] by blast
  qed
qed

theorem orders_nonincreasing_with_depth_witness:
  "\<exists>fmm. FmmHighFreq 16 10 4 = Inr fmm \<and> (2::nat) \<le> 2 \<and> (2::nat) \<le> 3 \<and> (3::nat) < 4
     \<and> \<lceil>Llevel 16 2\<rceil> < 2 ^ 32
     \<and> m_Ls fmm ! (2 - 2) = nat \<lceil>Llevel 16 2\<rceil> \<and> m_Ls fmm ! (3 - 2) = nat \<lceil>Llevel 16 3\<rceil>
     \<and> m_Ls fmm ! (3 - 2) \<le> m_Ls fmm ! (2 - 2) \<and> m_Ls fmm ! (4 - 2) = 10
     \<and> length (m_Ls fmm) = 4 - 1"
proof -
  obtain fmm where c: "FmmHighFreq 16 10 4 = Inr fmm"
    by (simp add: FmmHighFreq_def Let_def)
  have "\<lceil>Llevel 16 2\<rceil> \<le> 32" using Llevel_16_bound by (simp add: ceiling_le_iff)
  then have r: "\<lceil>Llevel 16 2\<rceil> < 2 ^ 32" by simp
  show ?thesis
    using c r orders_nonincreasing_with_depth [of 16 10 4 fmm 2 3] by simp
qed

lemma Llevel_drop: "Llevel 16 3 + 1 \<le> Llevel 16 2"
proof -
  have s: "1 \<le> sqrt 3" by simp
  have q: "sqrt 3 * 16 * 2 / 2 ^ 3 \<le> sqrt 3 * 16 * 2 / (2 ^ 2 :: real)" by simp
  have pos: "0 < sqrt 3 * 16 * 2 / 2 ^ 3 + pi"
    by (rule add_nonneg_pos) simp_all
  have pos2: "0 < sqrt 3 * 16 * 2 / 2 ^ 2 + pi"
    by (rule add_nonneg_pos) simp_all
  have "log 10 (sqrt 3 * 16 * 2 / 2 ^ 3 + pi) \<le> log 10 (sqrt 3 * 16 * 2 / 2 ^ 2 + pi)"
    using q pos pos2 by (subst log_le_cancel_iff) simp_all
  moreover have "sqrt 3 * 16 * 2 / 2 ^ 3 + 1 \<le> sqrt 3 * 16 * 2 / (2 ^ 2 :: real)"
  proof -
    have "sqrt 3 * 16 * 2 / 2 ^ 3 = 4 * sqrt 3" "sqrt 3 * 16 * 2 / (2 ^ 2 :: real) = 8 * sqrt 3"
      by simp_all
    then show ?thesis using s by linarith
  qed
  ultimately show ?thesis unfolding Llevel_def by simp
qed

lemma orders_drop_at_wavenumber_16:
  "\<not> (FmmHighFreq_Ls 16 10 4 ! 0 \<le> FmmHighFreq_Ls 16 10 4 ! 1)"
proof -
  have "\<lceil>Llevel 16 2\<rceil> \<le> 32" using Llevel_16_bound by (simp add: ceiling_le_iff)
  then have r2: "\<lceil>Llevel 16 2\<rceil> < 2 ^ 32" by simp
  have lt: "\<lceil>Llevel 16 3\<rceil> < \<lceil>Llevel 16 2\<rceil>"
    using Llevel_drop by linarith
  then have r3: "\<lceil>Llevel 16 3\<rceil> < 2 ^ 32" using r2 by linarith
  have a: "FmmHighFreq_Ls 16 10 4 ! 0 = nat \<lceil>Llevel 16 2\<rceil>"
  proof -
    have "FmmHighFreq_Ls 16 10 4 ! 0 = toUnsignedInt \<lceil>Llevel 16 2\<rceil>"
      using nth_FmmHighFreq_Ls [of 0 4 16 10] by (simp only: add_0)
    then show ?thesis by (simp only: toUnsignedInt_in_range [OF r2])
  qed
  have b: "FmmHighFreq_Ls 16 10 4 ! 1 = nat \<lceil>Llevel 16 3\<rceil>"
  proof -
    have "(1::nat) + 2 < 4" by simp
    from nth_FmmHighFreq_Ls [OF this, of 16 10]
    have "FmmHighFreq_Ls 16 10 4 ! 1 = toUnsignedInt \<lceil>Llevel 16 (1 + 2)\<rceil>" .
    moreover have "(1::nat) + 2 = 3" by simp
    ultimately have "FmmHighFreq_Ls 16 10 4 ! 1 = toUnsignedInt \<lceil>Llevel 16 3\<rceil>"
      by (simp only:)
    then show ?thesis by (simp only: toUnsignedInt_in_range [OF r3])
  qed
  have "0 < \<lceil>Llevel 16 2\<rceil>"
  proof -
    have s0: "0 \<le> sqrt 3" by simp
    have e: "sqrt 3 * 16 * 2 / 2 ^ 3 = 4 * sqrt 3" by simp
    have "1 \<le> sqrt 3 * 16 * 2 / 2 ^ 3 + pi" using s0 pi_ge_two unfolding e by linarith
    then have "0 \<le> log 10 (sqrt 3 * 16 * 2 / 2 ^ 3 + pi)" by simp
    then have "0 \<le> Llevel 16 3" using s0 unfolding Llevel_def e by simp
    then show ?thesis using Llevel_drop by linarith
  qed
  then show ?thesis using lt a b by linarith
qed

text \<open>
  With wavenumber 16 and four levels the order computed for level 3 is smaller than the
  order computed for level 2, whatever the leaf order: the orders are not non-decreasing
  in depth.
\<close>

theorem orders_nondecreasing_counterexample:
  "\<not> (\<forall>fmm l1 l2. FmmHighFreq 16 10 4 = Inr fmm \<longrightarrow> l1 < l2 \<longrightarrow> l2 < length (m_Ls fmm)
        \<longrightarrow> m_Ls fmm ! l1 \<le> m_Ls fmm ! l2)"
proof
  assume all: "\<forall>fmm l1 l2. FmmHighFreq 16 10 4 = Inr fmm \<longrightarrow> l1 < l2 \<longrightarrow> l2 < length (m_Ls fmm)
        \<longrightarrow> m_Ls fmm ! l1 \<le> m_Ls fmm ! l2"
  obtain fmm where c: "FmmHighFreq 16 10 4 = Inr fmm"
    by (simp add: FmmHighFreq_def Let_def)
  then have Ls: "m_Ls fmm = FmmHighFreq_Ls 16 10 4"
    by (auto simp: FmmHighFreq_def Let_def)
  have "(1::nat) < length (m_Ls fmm)"
    unfolding Ls by (simp add: length_FmmHighFreq_Ls)
  with all c have "m_Ls fmm ! 0 \<le> m_Ls fmm ! 1" by blast
  then show False using orders_drop_at_wavenumber_16 unfolding Ls by simp
qed

text \<open>
  C7. \<^verbatim>\<open>FmmHighFreq::interpolate\<close> chooses the direction only by comparing the two
  levels. On a constructed transform, if \<^verbatim>\<open>levelOld > levelNew\<close> it applies the upward
  operator stored for the coarser level \<^verbatim>\<open>levelNew\<close>, which was built from the order of
  level \<^verbatim>\<open>levelNew + 1\<close> to the order of \<^verbatim>\<open>levelNew\<close>; otherwise it applies the
  downward operator stored for \<^verbatim>\<open>levelOld\<close>, built from the order of \<^verbatim>\<open>levelOld\<close> to
  the order of the finer level \<^verbatim>\<open>levelOld + 1\<close>. So between two adjacent levels, in
  either direction, the operator applied is the one from the old level's order to the new
  level's order.
\<close>

theorem interpolate_direction_from_levels:
  assumes "FmmHighFreq kappa L levels = Inr fmm"
  shows "interpolate lib fmm levelOld levelNew c =
    (if levelOld > levelNew then
       (if 2 \<le> levelNew \<and> levelNew < levels then
          Inr (interpolateOnSphere lib
                 \<lparr> oldL = m_Ls fmm ! (levelNew + 1 - 2), newL = m_Ls fmm ! (levelNew - 2) \<rparr> c)
        else Inl out_of_range)
     else
       (if 2 \<le> levelOld \<and> levelOld < levels then
          Inr (interpolateOnSphere lib
                 \<lparr> oldL = m_Ls fmm ! (levelOld - 2), newL = m_Ls fmm ! (levelOld + 1 - 2) \<rparr> c)
        else Inl out_of_range))
    \<and> (2 \<le> levelOld \<and> levelOld \<le> levels \<and> 2 \<le> levelNew \<and> levelNew \<le> levels
       \<and> (levelOld = levelNew + 1 \<or> levelNew = levelOld + 1) \<longrightarrow>
       interpolate lib fmm levelOld levelNew c =
         Inr (interpolateOnSphere lib
                \<lparr> oldL = m_Ls fmm ! (levelOld - 2), newL = m_Ls fmm ! (levelNew - 2) \<rparr> c))"
proof -
  have lv: "2 \<le> levels" using assms by (auto simp: FmmHighFreq_def split: if_splits)
  have up: "m_interpolatorsUpwards fmm =
      map (\<lambda>level. \<lparr> oldL = m_Ls fmm ! (level - 2 + 1), newL = m_Ls fmm ! (level - 2) \<rparr>)
        [2..<levels]"
    and down: "m_interpolatorsDownwards fmm =
      map (\<lambda>level. \<lparr> oldL = m_Ls fmm ! (level - 2), newL = m_Ls fmm ! (level - 2 + 1) \<rparr>)
        [2..<levels]"
    using assms by (auto simp: FmmHighFreq_def Let_def split: if_splits)
  have nth_up: "m_interpolatorsUpwards fmm ! (l - 2) =
      \<lparr> oldL = m_Ls fmm ! (l + 1 - 2), newL = m_Ls fmm ! (l - 2) \<rparr>"
    if "2 \<le> l" "l < levels" for l
  proof -
    have "l - 2 < length [2..<levels]" using that by simp
    moreover have "[2..<levels] ! (l - 2) = l" using that by simp
    moreover have "l - 2 + 1 = l + 1 - 2" using that by simp
    ultimately show ?thesis unfolding up by simp
  qed
  have nth_down: "m_interpolatorsDownwards fmm ! (l - 2) =
      \<lparr> oldL = m_Ls fmm ! (l - 2), newL = m_Ls fmm ! (l + 1 - 2) \<rparr>"
    if "2 \<le> l" "l < levels" for l
  proof -
    have "l - 2 < length [2..<levels]" using that by simp
    moreover have "[2..<levels] ! (l - 2) = l" using that by simp
    moreover have "l - 2 + 1 = l + 1 - 2" using that by simp
    ultimately show ?thesis unfolding down by simp
  qed
  have len: "length (m_interpolatorsUpwards fmm) = levels - 2"
    "length (m_interpolatorsDownwards fmm) = levels - 2"
    by (simp_all add: up down)
  have general: "interpolate lib fmm levelOld levelNew c =
    (if levelOld > levelNew then
       (if 2 \<le> levelNew \<and> levelNew < levels then
          Inr (interpolateOnSphere lib
                 \<lparr> oldL = m_Ls fmm ! (levelNew + 1 - 2), newL = m_Ls fmm ! (levelNew - 2) \<rparr> c)
        else Inl out_of_range)
     else
       (if 2 \<le> levelOld \<and> levelOld < levels then
          Inr (interpolateOnSphere lib
                 \<lparr> oldL = m_Ls fmm ! (levelOld - 2), newL = m_Ls fmm ! (levelOld + 1 - 2) \<rparr> c)
        else Inl out_of_range))"
  proof (cases "levelOld > levelNew")
    case True
    show ?thesis
    proof (cases "2 \<le> levelNew \<and> levelNew < levels")
      case True
      then show ?thesis using \<open>levelOld > levelNew\<close> nth_up [of levelNew] len
        by (auto simp: interpolate_def)
    next
      case False
      then show ?thesis using \<open>levelOld > levelNew\<close> len lv
        by (auto simp: interpolate_def)
    qed
  next
    case False
    show ?thesis
    proof (cases "2 \<le> levelOld \<and> levelOld < levels")
      case True
      then show ?thesis using \<open>\<not> levelOld > levelNew\<close> nth_down [of levelOld] len
        by (auto simp: interpolate_def)
    next
      case False
      then show ?thesis using \<open>\<not> levelOld > levelNew\<close> len lv
        by (auto simp: interpolate_def)
    qed
  qed
  show ?thesis
  proof (intro conjI impI)
    show "interpolate lib fmm levelOld levelNew c =
    (if levelOld > levelNew then
       (if 2 \<le> levelNew \<and> levelNew < levels then
          Inr (interpolateOnSphere lib
                 \<lparr> oldL = m_Ls fmm ! (levelNew + 1 - 2), newL = m_Ls fmm ! (levelNew - 2) \<rparr> c)
        else Inl out_of_range)
     else
       (if 2 \<le> levelOld \<and> levelOld < levels then
          Inr (interpolateOnSphere lib
                 \<lparr> oldL = m_Ls fmm ! (levelOld - 2), newL = m_Ls fmm ! (levelOld + 1 - 2) \<rparr> c)
        else Inl out_of_range))" by (rule general)
  next
    assume a: "2 \<le> levelOld \<and> levelOld \<le> levels \<and> 2 \<le> levelNew \<and> levelNew \<le> levels
       \<and> (levelOld = levelNew + 1 \<or> levelNew = levelOld + 1)"
    then consider "levelOld = levelNew + 1" | "levelNew = levelOld + 1" by blast
    then show "interpolate lib fmm levelOld levelNew c =
         Inr (interpolateOnSphere lib
                \<lparr> oldL = m_Ls fmm ! (levelOld - 2), newL = m_Ls fmm ! (levelNew - 2) \<rparr> c)"
    proof cases
      case 1
      then have g: "levelOld > levelNew" and r: "2 \<le> levelNew \<and> levelNew < levels"
        and e: "levelNew + 1 - 2 = levelOld - 2" using a by auto
      show ?thesis by (simp only: general g r e if_True simp_thms)
    next
      case 2
      then have g: "\<not> levelOld > levelNew" and r: "2 \<le> levelOld \<and> levelOld < levels"
        and e: "levelOld + 1 - 2 = levelNew - 2" using a by auto
      show ?thesis by (simp only: general g r e if_True if_False simp_thms)
    qed
  qed
qed

theorem interpolate_direction_from_levels_witness:
  "\<exists>fmm. FmmHighFreq 16 10 4 = Inr fmm
     \<and> (2::nat) \<le> 3 \<and> (3::nat) \<le> 4 \<and> (2::nat) \<le> 4 \<and> (4::nat) \<le> 4 \<and> (4::nat) = 3 + 1
     \<and> interpolate \<lparr> legendre_roots = (\<lambda>n. (\<lambda>i. 0, \<lambda>i. 1)), zbesh = (\<lambda>zr zi nu kode kind n. (0, 0, 0, 0)),
                      legendre_p = (\<lambda>l x. 1), interpolateOnSphere = (\<lambda>i cs. take (newL i) cs) \<rparr>
         fmm 3 4 [1, 2]
       = Inr (take (m_Ls fmm ! (4 - 2)) [1, 2])"
proof -
  obtain fmm where c: "FmmHighFreq 16 10 4 = Inr fmm"
    by (simp add: FmmHighFreq_def Let_def)
  show ?thesis
    using c interpolate_direction_from_levels [of 16 10 4 fmm 
       "\<lparr> legendre_roots = (\<lambda>n. (\<lambda>i. 0, \<lambda>i. 1)), zbesh = (\<lambda>zr zi nu kode kind n. (0, 0, 0, 0)),
                      legendre_p = (\<lambda>l x. 1), interpolateOnSphere = (\<lambda>i cs. take (newL i) cs) \<rparr>" 3 4 "[1, 2]"]
    by simp
qed

text \<open>The number of quadrature directions, and the two offsets of a round trip.\<close>

lemma length_quadratureDirections:
  "length (quadratureDirections lib L) = (L + 1) * (2 * L + 1)"
  by (simp add: quadratureDirections_def Let_def length_concat comp_def sum_list_triv)

lemma dot_vminus_swap: "dot (vminus c p) k = - dot (vminus p c) k"
  by (cases c; cases p; cases k) (simp add: algebra_simps)

lemma dot_vminus_self: "dot (vminus c c) k = 0"
  by (cases c; cases k) simp

lemma map2_times_same:
  "map2 (*) (map f ks) (map g ks) = map (\<lambda>k. f k * g k) ks"
  by (induction ks) simp_all

text \<open>
  C1. At every level of the transform and for every two box centres \<^verbatim>\<open>c\<close> and \<^verbatim>\<open>p\<close>,
  the transfer vector of \<^verbatim>\<open>M2M(c, p, level)\<close> multiplied elementwise by the transfer
  vector of \<^verbatim>\<open>L2L(p, c, level)\<close> is the vector of ones (the offsets cancel); both vectors
  have one entry for each of the \<^verbatim>\<open>(L+1)(2L+1)\<close> quadrature directions of the level.
  When the two centres are equal, each transfer vector is itself the vector of ones.
  Scalars are exact real and complex numbers.
\<close>

theorem M2M_L2L_round_trip:
  assumes "2 \<le> level" and "level - 2 < length (m_Ls fmm)"
  shows "\<exists>T T'. M2M lib fmm c p level = Inr T \<and> L2L lib fmm p c level = Inr T'
      \<and> length T = (m_Ls fmm ! (level - 2) + 1) * (2 * (m_Ls fmm ! (level - 2)) + 1)
      \<and> length T' = length T
      \<and> map2 (*) T T' = replicate (length T) 1
      \<and> M2M lib fmm c c level = Inr (replicate (length T) 1)
      \<and> L2L lib fmm c c level = Inr (replicate (length T) 1)"
proof -
  let ?L = "m_Ls fmm ! (level - 2)"
  let ?ks = "quadratureDirections lib ?L"
  let ?f = "\<lambda>khat. exp (- m_kappa fmm * complex_of_real (dot (vminus p c) khat))"
  let ?g = "\<lambda>khat. exp (- m_kappa fmm * complex_of_real (dot (vminus c p) khat))"
  have ok: "\<not> (level < 2 \<or> length (m_Ls fmm) \<le> level - 2)" using assms by auto
  have m: "M2M lib fmm c p level = Inr (map ?f ?ks)"
    using ok by (simp add: M2M_def Let_def)
  have l: "L2L lib fmm p c level = Inr (map ?g ?ks)"
    using ok by (simp add: L2L_def M2M_def Let_def)
  have one: "?f k * ?g k = 1" for k
  proof -
    have "?f k * ?g k = exp (- m_kappa fmm * complex_of_real (dot (vminus p c) k)
        + - m_kappa fmm * complex_of_real (dot (vminus c p) k))"
      by (simp only: exp_add)
    also have "- m_kappa fmm * complex_of_real (dot (vminus p c) k)
        + - m_kappa fmm * complex_of_real (dot (vminus c p) k) = 0"
      by (simp add: dot_vminus_swap [of c p k])
    finally show ?thesis by simp
  qed
  have prod: "map2 (*) (map ?f ?ks) (map ?g ?ks) = replicate (length ?ks) 1"
    by (simp only: map2_times_same one map_replicate_const)
  have same: "M2M lib fmm c c level = Inr (replicate (length ?ks) 1)"
    using ok by (simp add: M2M_def Let_def dot_vminus_self map_replicate_const)
  show ?thesis
    using m l prod same by (simp add: length_quadratureDirections L2L_def)
qed

theorem M2M_L2L_round_trip_witness:
  "(2::nat) \<le> 2 \<and> (2::nat) - 2 < length (m_Ls exampleFmm)
   \<and> (\<exists>T T'. M2M exampleLibrary exampleFmm (1, 2, 3) (0, 1, 5) 2 = Inr T
        \<and> L2L exampleLibrary exampleFmm (0, 1, 5) (1, 2, 3) 2 = Inr T'
        \<and> length T = 15 \<and> map2 (*) T T' = replicate 15 1
        \<and> M2M exampleLibrary exampleFmm (1, 2, 3) (1, 2, 3) 2 = Inr (replicate 15 1))"
proof -
  have h: "(2::nat) - 2 < length (m_Ls exampleFmm)" by (simp add: exampleFmm_def)
  have L: "(m_Ls exampleFmm ! (2 - 2) + 1) * (2 * (m_Ls exampleFmm ! (2 - 2)) + 1) = 15"
    by (simp add: exampleFmm_def)
  show ?thesis
    using h M2M_L2L_round_trip [of 2 exampleFmm exampleLibrary "(1, 2, 3)" "(0, 1, 5)"]
    unfolding L by auto
qed

text \<open>
  C2, as the code has it. In \<^verbatim>\<open>M2L\<close> the outer loop runs through the orders
  \<^verbatim>\<open>l = 0, ..., L\<close> of the level and no further (\<^verbatim>\<open>Ldash\<close> equals \<^verbatim>\<open>L\<close>), and every
  one of them enters the transfer vector with the window factor \<^verbatim>\<open>CLLdash = 1\<close>, that
  is at full weight: the returned vector is the one the loop computes with all factors 1.
  The branch with the cos-squared window is never taken.
\<close>

theorem M2L_applies_no_window:
  "M2L_taper fmm level = map (\<lambda>l. (l, 1)) [0..<m_Ls fmm ! (level - 2) + 1]
   \<and> M2L lib fmm sourceCentre fieldCentre boxSize level =
       (if level < 2 \<or> length (m_Ls fmm) \<le> level - 2 then Inl out_of_range
        else M2L_loop lib fmm (norm2 (vminus fieldCentre sourceCentre))
               (vdiv (vminus fieldCentre sourceCentre) (norm2 (vminus fieldCentre sourceCentre)))
               (m_Ls fmm ! (level - 2)) (quadratureDirections lib (m_Ls fmm ! (level - 2)))
               (map (\<lambda>l. (l, 1)) [0..<m_Ls fmm ! (level - 2) + 1])
               (replicate ((m_Ls fmm ! (level - 2) + 1) * (2 * (m_Ls fmm ! (level - 2)) + 1)) 0))"
proof -
  have t: "M2L_taper fmm level = map (\<lambda>l. (l, 1)) [0..<m_Ls fmm ! (level - 2) + 1]"
    by (simp add: M2L_taper_def Let_def CLLdash_def)
  show ?thesis
    unfolding M2L_def Let_def by (simp only: t simp_thms)
qed

theorem M2L_applies_no_window_witness:
  "M2L_taper exampleFmm 2 = [(0, 1), (1, 1), (2, 1)]"
  using M2L_applies_no_window [of exampleFmm 2 exampleLibrary "(0, 0, 0)" "(4, 0, 0)" "(1, 1, 1)"]
  by (simp add: exampleFmm_def upt_conv_Cons)

text \<open>
  At a level of order 2 the loop of \<^verbatim>\<open>M2L\<close> meets no order beyond 2, so no term is
  tapered.
\<close>

theorem M2L_window_counterexample:
  "\<not> (\<exists>(l, w) \<in> set (M2L_taper exampleFmm 2). m_Ls exampleFmm ! (2 - 2) < l)"
  by (auto simp: M2L_taper_def exampleFmm_def)

text \<open>The loop of \<^verbatim>\<open>M2L\<close> fails exactly when \<^verbatim>\<open>zbesh\<close> reports an error at one of its orders.\<close>

lemma scaledhl_fails_iff:
  "isl (scaledhl lib fmm r L l) \<longleftrightarrow> l \<le> L \<and> zbesh_ierr lib fmm r l \<noteq> 0"
  by (auto simp: scaledhl_def zbesh_ierr_def Let_def split: prod.splits)

lemma scaledhl_error_kind:
  assumes "scaledhl lib fmm r L l = Inl err"
  shows "(0 \<le> zbesh_ierr lib fmm r l \<and> zbesh_ierr lib fmm r l < 6 \<longrightarrow>
            err = invalid_argument (''FmmHighFreq::M2L(x1, x2): '' @ ''AMOS: '' @
                     amosErrorMessages ! nat (zbesh_ierr lib fmm r l)))
       \<and> (\<not> (0 \<le> zbesh_ierr lib fmm r l \<and> zbesh_ierr lib fmm r l < 6) \<longrightarrow> err = out_of_range)"
  using assms
  by (auto simp: scaledhl_def zbesh_ierr_def Let_def split: prod.splits if_splits)

lemma M2L_loop_fails_iff:
  "isl (M2L_loop lib fmm r Rhat L khats ps T)
     \<longleftrightarrow> (\<exists>(l, w) \<in> set ps. isl (scaledhl lib fmm r L l))"
proof (induction ps arbitrary: T)
  case Nil
  then show ?case by simp
next
  case (Cons p ps)
  obtain l w where p: "p = (l, w)" by (cases p)
  show ?case
  proof (cases "scaledhl lib fmm r L l")
    case (Inl err)
    then show ?thesis using p by auto
  next
    case (Inr shl)
    then show ?thesis using p Cons.IH by auto
  qed
qed

lemma ex_order_of_loop:
  "(\<exists>(l, w) \<in> set (map (\<lambda>l. (l, 1::real)) [0..<L + 1]). P l) \<longleftrightarrow> (\<exists>l \<le> L. P l)"
proof -
  have "set [0..<L + 1] = {l. l \<le> L}" by auto
  then have "set (map (\<lambda>l. (l, 1::real)) [0..<L + 1]) = (\<lambda>l. (l, 1)) ` {l. l \<le> L}"
    by (simp only: set_map)
  then show ?thesis by auto
qed

lemma M2L_loop_error_from_scaledhl:
  "M2L_loop lib fmm r Rhat L khats ps T = Inl err
     \<Longrightarrow> \<exists>(l, w) \<in> set ps. scaledhl lib fmm r L l = Inl err"
proof (induction ps arbitrary: T)
  case Nil
  then show ?case by simp
next
  case (Cons p ps)
  obtain l w where p: "p = (l, w)" by (cases p)
  show ?case
  proof (cases "scaledhl lib fmm r L l")
    case (Inl e)
    then show ?thesis using p Cons.prems by auto
  next
    case (Inr shl)
    then show ?thesis using p Cons.IH Cons.prems by auto
  qed
qed

text \<open>
  C4. At a level of the transform, \<^verbatim>\<open>M2L\<close> ends in an exception and returns no transfer
  vector exactly when \<^verbatim>\<open>zbesh\<close> reports a code \<^verbatim>\<open>ierr != 0\<close> for one of the orders
  \<^verbatim>\<open>0, ..., L\<close> of the Hankel function; so it returns a vector only when every call
  reported success. The exception is the invalid-argument error with the message of the
  code whenever the code is one of the documented \<^verbatim>\<open>1, ..., 5\<close>.
\<close>

theorem M2L_raises_iff_zbesh_reports_error:
  assumes "2 \<le> level" and "level - 2 < length (m_Ls fmm)"
  shows "(isl (M2L lib fmm sourceCentre fieldCentre boxSize level) \<longleftrightarrow>
           (\<exists>l \<le> m_Ls fmm ! (level - 2).
              zbesh_ierr lib fmm (norm2 (vminus fieldCentre sourceCentre)) l \<noteq> 0))
    \<and> (\<forall>T. M2L lib fmm sourceCentre fieldCentre boxSize level = Inr T \<longrightarrow>
           (\<forall>l \<le> m_Ls fmm ! (level - 2).
              zbesh_ierr lib fmm (norm2 (vminus fieldCentre sourceCentre)) l = 0))
    \<and> (\<forall>err. M2L lib fmm sourceCentre fieldCentre boxSize level = Inl err \<longrightarrow>
           (\<exists>l \<le> m_Ls fmm ! (level - 2).
              zbesh_ierr lib fmm (norm2 (vminus fieldCentre sourceCentre)) l \<noteq> 0
              \<and> (zbesh_ierr lib fmm (norm2 (vminus fieldCentre sourceCentre)) l \<in> {1..5} \<longrightarrow>
                  err = invalid_argument (''FmmHighFreq::M2L(x1, x2): '' @ ''AMOS: '' @
                     amosErrorMessages !
                       nat (zbesh_ierr lib fmm (norm2 (vminus fieldCentre sourceCentre)) l)))))"
proof -
  let ?L = "m_Ls fmm ! (level - 2)"
  let ?r = "norm2 (vminus fieldCentre sourceCentre)"
  let ?Rhat = "vdiv (vminus fieldCentre sourceCentre) ?r"
  let ?T0 = "replicate ((?L + 1) * (2 * ?L + 1)) (0::complex)"
  let ?ps = "map (\<lambda>l. (l, 1::real)) [0..<?L + 1]"
  have ok: "\<not> (level < 2 \<or> length (m_Ls fmm) \<le> level - 2)" using assms by auto
  have t: "M2L_taper fmm level = ?ps"
    by (simp add: M2L_taper_def Let_def CLLdash_def)
  have M: "M2L lib fmm sourceCentre fieldCentre boxSize level =
      M2L_loop lib fmm ?r ?Rhat ?L (quadratureDirections lib ?L) ?ps ?T0"
    unfolding M2L_def Let_def using ok by (simp only: t if_False)
  have iff: "isl (M2L lib fmm sourceCentre fieldCentre boxSize level) \<longleftrightarrow>
           (\<exists>l \<le> ?L. zbesh_ierr lib fmm ?r l \<noteq> 0)"
    unfolding M M2L_loop_fails_iff ex_order_of_loop by (auto simp: scaledhl_fails_iff)
  have kind: "\<exists>l \<le> ?L. zbesh_ierr lib fmm ?r l \<noteq> 0
              \<and> (zbesh_ierr lib fmm ?r l \<in> {1..5} \<longrightarrow>
                  err = invalid_argument (''FmmHighFreq::M2L(x1, x2): '' @ ''AMOS: '' @
                     amosErrorMessages ! nat (zbesh_ierr lib fmm ?r l)))"
    if e: "M2L lib fmm sourceCentre fieldCentre boxSize level = Inl err" for err
  proof -
    from e M2L_loop_error_from_scaledhl [of lib fmm ?r ?Rhat ?L _ ?ps ?T0 err]
    have "\<exists>l \<le> ?L. scaledhl lib fmm ?r ?L l = Inl err"
      unfolding M ex_order_of_loop by blast
    then obtain l where l: "l \<le> ?L" "scaledhl lib fmm ?r ?L l = Inl err" by blast
    from l(2) have "isl (scaledhl lib fmm ?r ?L l)" by simp
    then have nz: "zbesh_ierr lib fmm ?r l \<noteq> 0" by (simp add: scaledhl_fails_iff)
    show ?thesis using l(1) nz scaledhl_error_kind [OF l(2)] by auto
  qed
  show ?thesis
  proof (intro conjI allI impI)
    show "isl (M2L lib fmm sourceCentre fieldCentre boxSize level) \<longleftrightarrow>
           (\<exists>l \<le> ?L. zbesh_ierr lib fmm ?r l \<noteq> 0)" by (rule iff)
  next
    fix T l
    assume "M2L lib fmm sourceCentre fieldCentre boxSize level = Inr T" "l \<le> ?L"
    then show "zbesh_ierr lib fmm ?r l = 0" using iff by auto
  next
    fix err
    assume "M2L lib fmm sourceCentre fieldCentre boxSize level = Inl err"
    then show "\<exists>l \<le> ?L. zbesh_ierr lib fmm ?r l \<noteq> 0
              \<and> (zbesh_ierr lib fmm ?r l \<in> {1..5} \<longrightarrow>
                  err = invalid_argument (''FmmHighFreq::M2L(x1, x2): '' @ ''AMOS: '' @
                     amosErrorMessages ! nat (zbesh_ierr lib fmm ?r l)))"
      by (rule kind)
  qed
qed

theorem M2L_raises_iff_zbesh_reports_error_witness:
  "(2::nat) \<le> 2 \<and> (2::nat) - 2 < length (m_Ls exampleFmm)
   \<and> zbesh_ierr exampleLibrary exampleFmm (norm2 (vminus (4, 0, 0) (0, 0, 0))) 2 \<noteq> 0
   \<and> isl (M2L exampleLibrary exampleFmm (0, 0, 0) (4, 0, 0) (1, 1, 1) 2)"
proof -
  have h: "(2::nat) - 2 < length (m_Ls exampleFmm)" by (simp add: exampleFmm_def)
  have z: "zbesh_ierr exampleLibrary exampleFmm (norm2 (vminus (4, 0, 0) (0, 0, 0))) 2 \<noteq> 0"
    by (simp add: zbesh_ierr_def exampleLibrary_def Let_def)
  have L: "(2::nat) \<le> m_Ls exampleFmm ! (2 - 2)" by (simp add: exampleFmm_def)
  show ?thesis
    using h z L M2L_raises_iff_zbesh_reports_error
      [of 2 exampleFmm exampleLibrary "(0, 0, 0)" "(4, 0, 0)" "(1, 1, 1)"]
    by blast
qed

text \<open>Boxes of a level, their parents and their children.\<close>

lemma in_boxesAt:
  "(x, y, z) \<in> set (boxesAt level) \<longleftrightarrow> x < 2 ^ level \<and> y < 2 ^ level \<and> z < 2 ^ level"
  by (fastforce simp: boxesAt_def image_iff)

lemma in_children_coords:
  "(x, y, z) \<in> set (children (a, b, d)) \<longleftrightarrow>
     (x = 2 * a \<or> x = 2 * a + 1) \<and> (y = 2 * b \<or> y = 2 * b + 1) \<and> (z = 2 * d \<or> z = 2 * d + 1)"
  by (simp; blast)

lemma half_eq: "(n = 2 * m \<or> n = 2 * m + 1) \<longleftrightarrow> n div 2 = m" for n m :: nat
  by presburger

lemma in_children: "c \<in> set (children p) \<longleftrightarrow> parent c = p"
  by (cases c; cases p) (simp only: in_children_coords half_eq parent.simps prod.inject)

lemma half_close: "x \<le> Suc x' \<Longrightarrow> x div 2 \<le> Suc (x' div 2)" for x x' :: nat
  by presburger

lemma touches_parent: "touches b c \<Longrightarrow> touches (parent b) (parent c)"
  by (cases b; cases c) (simp add: half_close)

lemma half_same: "x div 2 = x' div 2 \<Longrightarrow> x \<le> Suc x'" for x x' :: nat
  by presburger

lemma siblings_touch: "parent b = parent c \<Longrightarrow> touches b c"
  by (cases b; cases c) (simp add: half_same)

lemma parent_in_grid:
  assumes "c \<in> set (boxesAt level)" "1 \<le> level"
  shows "parent c \<in> set (boxesAt (level - 1))"
proof -
  obtain l where l: "level = Suc l" using assms(2) by (cases level) auto
  have h: "n < 2 * 2 ^ l \<Longrightarrow> n div 2 < 2 ^ l" for n :: nat by simp
  obtain x y z where c: "c = (x, y, z)" by (cases c)
  show ?thesis using assms(1) unfolding l c
    by (simp add: in_boxesAt h)
qed

lemma child_in_grid:
  assumes "parent c \<in> set (boxesAt (level - 1))" "1 \<le> level"
  shows "c \<in> set (boxesAt level)"
proof -
  obtain l where l: "level = Suc l" using assms(2) by (cases level) auto
  have h: "n div 2 < 2 ^ l \<Longrightarrow> n < 2 * 2 ^ l" for n :: nat by simp
  obtain x y z where c: "c = (x, y, z)" by (cases c)
  show ?thesis using assms(1) unfolding l c
    by (simp add: in_boxesAt h)
qed

lemma nonempty_parent:
  assumes "1 \<le> level" "level \<le> octreeLevels octree" "\<not> isEmpty octree level c"
  shows "\<not> isEmpty octree (level - 1) (parent c)"
proof -
  let ?f = "dofCountAbove (leafDofCount octree) (octreeLevels octree - level)"
  have d: "octreeLevels octree - (level - 1) = Suc (octreeLevels octree - level)"
    using assms by simp
  have "c \<in> set (children (parent c))" by (simp add: in_children)
  then have "?f c \<in> set (map ?f (children (parent c)))" by (simp only: set_map) (rule imageI)
  then have le: "?f c \<le> sum_list (map ?f (children (parent c)))"
    using member_le_sum_list [of "?f c" "map ?f (children (parent c))"] by simp
  have g: "getDofCount octree (level - 1) (parent c) = sum_list (map ?f (children (parent c)))"
    by (simp only: getDofCount_def d dofCountAbove.simps)
  have "0 < ?f c" using assms(3) by (simp add: isEmpty_def getDofCount_def)
  with le g have "0 < getDofCount octree (level - 1) (parent c)" by linarith
  then show ?thesis unfolding isEmpty_def by linarith
qed

lemma set_makeNeigbourList:
  "\<not> isEmpty octree level b \<Longrightarrow>
   set (makeNeigbourList octree level b)
     = {c \<in> set (boxesAt level). c \<noteq> b \<and> touches b c \<and> \<not> isEmpty octree level c}"
  by (simp add: makeNeigbourList_def)

lemma set_makeInteractionList:
  "\<not> isEmpty octree level b \<Longrightarrow>
   set (makeInteractionList octree level b)
     = {c. parent c \<in> set (makeNeigbourList octree (level - 1) (parent b))
           \<and> \<not> isEmpty octree level c \<and> c \<notin> set (makeNeigbourList octree level b)}"
proof -
  assume ne: "\<not> isEmpty octree level b"
  have "c \<in> set (concat (map children ps)) \<longleftrightarrow> parent c \<in> set ps" for c ps
    by (simp add: in_children)
  then show ?thesis using ne
    by (simp add: makeInteractionList_def del: set_concat)
qed

text \<open>
  C6, as the specification has it (the bodies of the two functions are missing from the
  sources). For every non-empty node below the root, the neighbour list and the interaction
  list are disjoint, hold neither the node itself nor an empty box, and together are
  exactly the other non-empty boxes of the level whose parent is the parent of the node or
  one of the boxes touching that parent: the children of the parent's neighbours and the
  node's own siblings.
\<close>

theorem neighbour_and_interaction_lists_partition:
  assumes "1 \<le> level" and "level \<le> octreeLevels octree"
    and "b \<in> set (boxesAt level)" and "\<not> isEmpty octree level b"
  shows "set (makeNeigbourList octree level b) \<inter> set (makeInteractionList octree level b) = {}
    \<and> (\<forall>c \<in> set (makeNeigbourList octree level b) \<union> set (makeInteractionList octree level b).
          c \<noteq> b \<and> \<not> isEmpty octree level c)
    \<and> set (makeNeigbourList octree level b) \<union> set (makeInteractionList octree level b)
        = {c \<in> set (boxesAt level). c \<noteq> b \<and> \<not> isEmpty octree level c
             \<and> touches (parent b) (parent c)}"
proof -
  let ?N = "set (makeNeigbourList octree level b)"
  let ?I = "set (makeInteractionList octree level b)"
  let ?P = "set (makeNeigbourList octree (level - 1) (parent b))"
  have pne: "\<not> isEmpty octree (level - 1) (parent b)"
    using assms(1,2,4) by (rule nonempty_parent)
  have N: "?N = {c \<in> set (boxesAt level). c \<noteq> b \<and> touches b c \<and> \<not> isEmpty octree level c}"
    using assms(4) by (rule set_makeNeigbourList)
  have P: "?P = {q \<in> set (boxesAt (level - 1)). q \<noteq> parent b \<and> touches (parent b) q
                 \<and> \<not> isEmpty octree (level - 1) q}"
    using pne by (rule set_makeNeigbourList)
  have I: "?I = {c. parent c \<in> ?P \<and> \<not> isEmpty octree level c \<and> c \<notin> ?N}"
    using assms(4) by (rule set_makeInteractionList)
  have disj: "?N \<inter> ?I = {}" unfolding I by blast
  have members: "\<forall>c \<in> ?N \<union> ?I. c \<noteq> b \<and> \<not> isEmpty octree level c"
  proof
    fix c assume "c \<in> ?N \<union> ?I"
    then show "c \<noteq> b \<and> \<not> isEmpty octree level c"
    proof
      assume "c \<in> ?N" then show ?thesis unfolding N by blast
    next
      assume "c \<in> ?I"
      then have "parent c \<in> ?P" "\<not> isEmpty octree level c" unfolding I by blast+
      moreover from \<open>parent c \<in> ?P\<close> have "parent c \<noteq> parent b" unfolding P by blast
      ultimately show ?thesis by blast
    qed
  qed
  have cover: "?N \<union> ?I = {c \<in> set (boxesAt level). c \<noteq> b \<and> \<not> isEmpty octree level c
             \<and> touches (parent b) (parent c)}" (is "_ = ?R")
  proof (intro set_eqI iffI)
    fix c assume "c \<in> ?N \<union> ?I"
    then show "c \<in> ?R"
    proof
      assume "c \<in> ?N"
      then show ?thesis unfolding N using touches_parent [of b c] by blast
    next
      assume c: "c \<in> ?I"
      then have p: "parent c \<in> ?P" unfolding I by blast
      then have "parent c \<in> set (boxesAt (level - 1))" "touches (parent b) (parent c)"
        unfolding P by blast+
      moreover from this(1) have "c \<in> set (boxesAt level)"
        using assms(1) by (rule child_in_grid)
      ultimately show ?thesis using members c by blast
    qed
  next
    fix c assume "c \<in> ?R"
    then have c: "c \<in> set (boxesAt level)" "c \<noteq> b" "\<not> isEmpty octree level c"
      "touches (parent b) (parent c)" by blast+
    show "c \<in> ?N \<union> ?I"
    proof (cases "c \<in> ?N")
      case True
      then show ?thesis by blast
    next
      case False
      then have "\<not> touches b c" using c unfolding N by blast
      then have "parent c \<noteq> parent b" using siblings_touch [of b c] by auto
      moreover have "parent c \<in> set (boxesAt (level - 1))"
        using c(1) assms(1) by (rule parent_in_grid)
      moreover have "\<not> isEmpty octree (level - 1) (parent c)"
        using assms(1,2) c(3) by (rule nonempty_parent)
      ultimately have "parent c \<in> ?P" using c(4) unfolding P by blast
      then have "c \<in> ?I" using c(3) False unfolding I by blast
      then show ?thesis by blast
    qed
  qed
  show ?thesis by (intro conjI disj members cover)
qed

theorem neighbour_and_interaction_lists_partition_witness:
  "(1::nat) \<le> 2 \<and> 2 \<le> octreeLevels threeLeafOctree \<and> (0, 0, 0) \<in> set (boxesAt 2)
   \<and> \<not> isEmpty threeLeafOctree 2 (0, 0, 0)
   \<and> set (makeNeigbourList threeLeafOctree 2 (0, 0, 0))
       \<inter> set (makeInteractionList threeLeafOctree 2 (0, 0, 0)) = {}
   \<and> makeNeigbourList threeLeafOctree 2 (0, 0, 0) = [(1, 0, 0)]
   \<and> makeInteractionList threeLeafOctree 2 (0, 0, 0) = [(3, 0, 0)]"
proof -
  have h1: "(0, 0, 0) \<in> set (boxesAt 2)" by code_simp
  have h2: "\<not> isEmpty threeLeafOctree 2 (0, 0, 0)" by code_simp
  have h3: "2 \<le> octreeLevels threeLeafOctree" by code_simp
  have n: "makeNeigbourList threeLeafOctree 2 (0, 0, 0) = [(1, 0, 0)]" by code_simp
  have i: "makeInteractionList threeLeafOctree 2 (0, 0, 0) = [(3, 0, 0)]" by code_simp
  have "set (makeNeigbourList threeLeafOctree 2 (0, 0, 0))
       \<inter> set (makeInteractionList threeLeafOctree 2 (0, 0, 0)) = {}"
    using neighbour_and_interaction_lists_partition [OF _ h3 h1 h2] by simp
  then show ?thesis using h1 h2 h3 n i by simp
qed

text \<open>
  In the octree with three non-empty leaves, the corner box has its non-empty sibling in
  its neighbour list; the sibling is a child of the parent itself, not of a neighbour of
  the parent, so the two lists together are more than the non-empty children of the
  parent's neighbours.
\<close>

theorem lists_cover_counterexample:
  "set (makeNeigbourList threeLeafOctree 2 (0, 0, 0))
     \<union> set (makeInteractionList threeLeafOctree 2 (0, 0, 0))
   \<noteq> set (filter (\<lambda>c. c \<noteq> (0, 0, 0) \<and> \<not> isEmpty threeLeafOctree 2 c)
          (concat (map children (makeNeigbourList threeLeafOctree 1 (parent (0, 0, 0))))))"
proof -
  have n: "makeNeigbourList threeLeafOctree 2 (0, 0, 0) = [(1, 0, 0)]" by code_simp
  have i: "makeInteractionList threeLeafOctree 2 (0, 0, 0) = [(3, 0, 0)]" by code_simp
  have r: "filter (\<lambda>c. c \<noteq> (0, 0, 0) \<and> \<not> isEmpty threeLeafOctree 2 c)
          (concat (map children (makeNeigbourList threeLeafOctree 1 (parent (0, 0, 0)))))
        = [(3, 0, 0)]" by code_simp
  show ?thesis unfolding n i r by simp
qed

end
